theory Spec2Isabelle
  imports Complex_Main "HOL-Library.Word"
begin

section \<open>Data model\<close>

text \<open>
  The two scripts (\<^verbatim>\<open>scripts/optimize-images.py\<close> and
  \<^verbatim>\<open>scripts/generate-og-image.py\<close>) are sequences of calls into the
  imaging library and the operating system.  The embedding keeps the scripts'
  own control flow and arithmetic as HOL functions over an explicit world
  (files, standard output, a log of file accesses), with every exception a
  value.  What the scripts cannot determine themselves (the codecs, the font
  rasteriser) is a parameter of the model, the record \<open>pil\<close>.
\<close>

type_synonym byte = "8 word"
type_synonym bytes = "byte list"

text \<open>A pixel is the tuple of its band values, as \<^verbatim>\<open>getdata()\<close> yields it.\<close>

type_synonym pixel = "byte list"

text \<open>
  An image object: mode string, size (width, height), the pixel store indexed
  row-major (\<open>y * width + x\<close>), the palette (read for mode P only; each entry
  already carries its alpha) and the metadata dictionary \<^verbatim>\<open>info\<close>
  (EXIF, ICC profile, ...).
\<close>

record image =
  mode :: string
  isize :: "nat \<times> nat"
  pix :: "nat \<Rightarrow> pixel"
  palette :: "byte \<Rightarrow> pixel"
  info :: "(string \<times> bytes) list"

text \<open>
  Python exceptions.  All of them are subclasses of \<^verbatim>\<open>Exception\<close>;
  \<open>ImportError\<close> is the one class the generator's handler tells apart.
\<close>

datatype exn =
    ImportError string
  | FileNotFoundError string
  | OSError string
  | ValueError string
  | TypeError string
  | ZeroDivisionError string
  | UnboundLocalError string
  | UnidentifiedImageError string

text \<open>Keyword arguments of \<^verbatim>\<open>Image.save\<close>.\<close>

datatype kwval = B bool | I int

record save_req =
  sformat :: string
  sparams :: "(string \<times> kwval) list"
  simage :: image

datatype font = FreeTypeFont string nat | DefaultFont

text \<open>
  A rasterised text: the offset of the bitmap from the anchor, its size and
  its coverage (0 to 255) at each bitmap coordinate.
\<close>

record glyphs =
  g_offset :: "int \<times> int"
  g_size :: "nat \<times> nat"
  g_cov :: "nat \<Rightarrow> nat \<Rightarrow> byte"

text \<open>
  The imaging library's parts that the scripts take as given:
  \<^item> \<open>decode\<close>: what \<^verbatim>\<open>Image.open\<close> and the first pixel access make
    of a file's bytes;
  \<^item> \<open>encode\<close>: what \<^verbatim>\<open>save\<close> writes for a request; on failure the
    exception and the bytes that had reached the file by then;
  \<^item> \<open>ft_open\<close>: whether FreeType accepts a font file at a size;
  \<^item> \<open>textbbox\<close>, \<open>getmask2\<close>: text metrics and rasterisation.
\<close>

record pil =
  decode :: "bytes \<Rightarrow> exn + image"
  encode :: "save_req \<Rightarrow> (exn \<times> bytes) + bytes"
  ft_open :: "bytes \<Rightarrow> nat \<Rightarrow> exn option"
  textbbox :: "font \<Rightarrow> string \<Rightarrow> exn + (int \<times> int \<times> int \<times> int)"
  getmask2 :: "font \<Rightarrow> string \<Rightarrow> exn + glyphs"

text \<open>
  Lines of standard output.  Each constructor is one \<^verbatim>\<open>print\<close> of the
  scripts and carries the values its f-string formats:
  \<^item> \<open>Optimizing p\<close>: \<^verbatim>\<open>Optimizing {input_path}...\<close>
  \<^item> \<open>Original n\<close>: \<^verbatim>\<open>  Original: {original_size:,} bytes\<close>
  \<^item> \<open>Optimized n\<close>: \<^verbatim>\<open>  Optimized: {new_size:,} bytes\<close>
  \<^item> \<open>Saved s pc\<close>: \<^verbatim>\<open>  Saved: {savings:,} bytes ({savings_percent:.1f}%)\<close>
  \<^item> \<open>Skipping p\<close>: \<^verbatim>\<open>Skipping {image_path} (not found)\<close>
  \<^item> \<open>Blank\<close>: \<^verbatim>\<open>print()\<close>
  \<^item> \<open>Total_space_saved t kb\<close>:
    \<^verbatim>\<open>Total space saved: {total_saved:,} bytes ({total_saved / 1024:.1f} KB)\<close>
  \<^item> \<open>All_optimized\<close>: \<^verbatim>\<open>All images optimized successfully!\<close>
  \<^item> \<open>Created p\<close>: \<^verbatim>\<open>Created Open Graph image: {output_path}\<close>
  \<^item> \<open>Dimensions w h\<close>: \<^verbatim>\<open>  Dimensions: {WIDTH}x{HEIGHT}px\<close>
  \<^item> \<open>File_size kb\<close>: \<^verbatim>\<open>  File size: {file_size_kb:.1f}KB\<close>
  \<^item> \<open>Warning_exceeds\<close>: \<^verbatim>\<open>  Warning: File size exceeds recommended 300KB\<close>
  \<^item> \<open>Within_limits\<close>: \<^verbatim>\<open>  File size is within recommended limits\<close>
  \<^item> \<open>Error_not_installed\<close>: \<^verbatim>\<open>Error: PIL/Pillow is not installed.\<close>
  \<^item> \<open>Install_hint\<close>: \<^verbatim>\<open>Install it with: pip3 install Pillow\<close>
  \<^item> \<open>Error_creating e\<close>: \<^verbatim>\<open>Error creating Open Graph image: {e}\<close>

  Python evaluates \<^verbatim>\<open>a / b\<close> on integers in binary64 and the format
  \<^verbatim>\<open>.1f\<close> rounds to one decimal; a line carries the exact quotient that
  is rounded and printed.
\<close>

datatype line =
    Optimizing string
  | Original int
  | Optimized int
  | Saved int rat
  | Skipping string
  | Blank
  | Total_space_saved int rat
  | All_optimized
  | Created string
  | Dimensions nat nat
  | File_size rat
  | Warning_exceeds
  | Within_limits
  | Error_not_installed
  | Install_hint
  | Error_creating exn

text \<open>
  File accesses, logged in order: \<open>Stat\<close> for \<^verbatim>\<open>os.path.exists\<close> and
  \<^verbatim>\<open>os.path.getsize\<close>, \<open>Opened\<close> for a read, \<open>Wrote\<close> for a
  \<^verbatim>\<open>save\<close> with its request.
\<close>

datatype io_event = Stat string | Opened string | Wrote string save_req

text \<open>
  The world a script runs in.  A path names a regular file or nothing; the
  directories of written paths exist.
\<close>

record world =
  files :: "string \<rightharpoonup> bytes"
  stdout :: "line list"
  io_log :: "io_event list"

type_synonym 'a io = "world \<Rightarrow> world \<times> (exn + 'a)"

definition io_return :: "'a \<Rightarrow> 'a io" where
  "io_return x = (\<lambda>w. (w, Inr x))"

definition io_raise :: "exn \<Rightarrow> 'a io" where
  "io_raise e = (\<lambda>w. (w, Inl e))"

text \<open>Sequencing: an exception of the first statement skips the rest.\<close>

definition io_bind :: "'a io \<Rightarrow> ('a \<Rightarrow> 'b io) \<Rightarrow> 'b io" where
  "io_bind m f = (\<lambda>w. case m w of (w', Inl e) \<Rightarrow> (w', Inl e) | (w', Inr x) \<Rightarrow> f x w')"

definition print :: "line \<Rightarrow> unit io" where
  "print l = (\<lambda>w. (w\<lparr>stdout := stdout w @ [l]\<rparr>, Inr ()))"

definition log_io :: "io_event \<Rightarrow> world \<Rightarrow> world" where
  "log_io ev w = w\<lparr>io_log := io_log w @ [ev]\<rparr>"

subsection \<open>Operating system calls\<close>

definition exists :: "string \<Rightarrow> bool io" where
  "exists p = (\<lambda>w. (log_io (Stat p) w, Inr (files w p \<noteq> None)))"

definition getsize :: "string \<Rightarrow> int io" where
  "getsize p = (\<lambda>w. (log_io (Stat p) w,
     case files w p of None \<Rightarrow> Inl (FileNotFoundError p) | Some b \<Rightarrow> Inr (int (length b))))"

subsection \<open>Imaging library calls\<close>

text \<open>Number of bands of the 8-bit modes; a single band otherwise.\<close>

definition getbands :: "string \<Rightarrow> nat" where
  "getbands m =
     (if m \<in> {''RGBA'', ''CMYK'', ''RGBX'', ''RGBa''} then 4
      else if m \<in> {''RGB'', ''YCbCr'', ''LAB'', ''HSV''} then 3
      else if m \<in> {''LA'', ''PA'', ''La''} then 2
      else 1)"

definition default_palette :: "byte \<Rightarrow> pixel" where
  "default_palette i = [0, 0, 0, 255]"

text \<open>
  \<^verbatim>\<open>Image.new(mode, size, color)\<close>: a fresh image filled with the colour
  (zero in every band when none is given), with no metadata.
\<close>

definition Image_new :: "string \<Rightarrow> nat \<times> nat \<Rightarrow> pixel option \<Rightarrow> image" where
  "Image_new m sz color =
     \<lparr>mode = m, isize = sz,
      pix = (\<lambda>i. case color of None \<Rightarrow> replicate (getbands m) 0 | Some c \<Rightarrow> c),
      palette = default_palette, info = []\<rparr>"

text \<open>\<^verbatim>\<open>list(img.getdata())\<close>: the pixels in row-major order.\<close>

definition getdata :: "image \<Rightarrow> pixel list" where
  "getdata img = map (pix img) [0..<fst (isize img) * snd (isize img)]"

text \<open>
  \<^verbatim>\<open>img.putdata(data)\<close>: copies the sequence into the image from the upper
  left corner; more entries than pixels is a \<^verbatim>\<open>TypeError\<close>.
\<close>

definition putdata :: "image \<Rightarrow> pixel list \<Rightarrow> exn + image" where
  "putdata img data =
     (if length data > fst (isize img) * snd (isize img)
      then Inl (TypeError ''too many data entries'')
      else Inr (img\<lparr>pix := (\<lambda>i. if i < length data then data ! i else pix img i)\<rparr>))"

text \<open>
  \<^verbatim>\<open>Image.open(path)\<close> with the pixel access that follows it: the file
  is read and decoded.
\<close>

definition Image_open :: "pil \<Rightarrow> string \<Rightarrow> image io" where
  "Image_open lib p = (\<lambda>w.
     case files w p of
       None \<Rightarrow> (log_io (Opened p) w, Inl (FileNotFoundError p))
     | Some b \<Rightarrow> (log_io (Opened p) w,
         case decode lib b of Inl e \<Rightarrow> Inl e | Inr img \<Rightarrow> Inr img))"

text \<open>
  \<^verbatim>\<open>img.save(path, format=..., **params)\<close>: the file is opened for
  writing (truncating it) and the encoder writes into it.  When the encoder
  raises, a file that save itself created is removed again, and a file that
  existed keeps whatever had been written.
\<close>

definition Image_save :: "pil \<Rightarrow> image \<Rightarrow> string \<Rightarrow> string \<Rightarrow> (string \<times> kwval) list \<Rightarrow> unit io" where
  "Image_save lib img p fmt params = (\<lambda>w.
     let req = \<lparr>sformat = fmt, sparams = params, simage = img\<rparr>;
         w' = log_io (Wrote p req) w
     in case encode lib req of
          Inr b \<Rightarrow> (w'\<lparr>files := (files w')(p \<mapsto> b)\<rparr>, Inr ())
        | Inl (e, part) \<Rightarrow>
            (if files w p = None then w' else w'\<lparr>files := (files w')(p \<mapsto> part)\<rparr>, Inl e))"

text \<open>Python's \<^verbatim>\<open>a / b\<close> on integers.\<close>

definition truediv :: "int \<Rightarrow> int \<Rightarrow> exn + rat" where
  "truediv a b = (if b = 0 then Inl (ZeroDivisionError ''division by zero'')
                  else Inr (of_int a / of_int b))"

section \<open>The optimizer, \<^verbatim>\<open>scripts/optimize-images.py\<close>\<close>

text \<open>
  The tail that the three functions share word for word (lines 43 to 52, 96 to
  105 and 140 to 149): measure the new size, compute the savings and the
  percentage, print them, return the new size.
\<close>

definition report :: "string \<Rightarrow> int \<Rightarrow> int io" where
  "report output_path original_size =
     io_bind (getsize output_path) (\<lambda>new_size.
     let savings = original_size - new_size in
     case truediv savings original_size of
       Inl e \<Rightarrow> io_raise e
     | Inr q \<Rightarrow>
         let savings_percent = q * 100 in
         io_bind (print (Original original_size)) (\<lambda>_.
         io_bind (print (Optimized new_size)) (\<lambda>_.
         io_bind (print (Saved savings savings_percent)) (\<lambda>_.
         io_return new_size))))"

text \<open>
  Removing the metadata, the same three lines in each function (lines 31 to
  33, 83 to 85 and 128 to 130): a new image of the same mode and size, filled
  from the pixel data alone.
\<close>

definition strip :: "image \<Rightarrow> exn + image" where
  "strip img =
     (let data = getdata img;
          image_without_exif = Image_new (mode img) (isize img) None
      in putdata image_without_exif data)"

definition optimize_png :: "pil \<Rightarrow> string \<Rightarrow> string option \<Rightarrow> int \<Rightarrow> int io" where
  "optimize_png lib input_path output_path0 quality =
     (let output_path = (case output_path0 of None \<Rightarrow> input_path | Some p \<Rightarrow> p) in
      io_bind (print (Optimizing input_path)) (\<lambda>_.
      io_bind (getsize input_path) (\<lambda>original_size.
      io_bind (Image_open lib input_path) (\<lambda>img.
      case strip img of
        Inl e \<Rightarrow> io_raise e
      | Inr image_without_exif \<Rightarrow>
          io_bind (Image_save lib image_without_exif output_path ''PNG''
                     [(''optimize'', B True), (''compress_level'', I 9)]) (\<lambda>_.
          report output_path original_size)))))"


text \<open>Band \<open>k\<close> of a pixel.\<close>

definition band :: "nat \<Rightarrow> pixel \<Rightarrow> byte" where
  "band k px = (if k < length px then px ! k else 0)"

text \<open>
  \<^verbatim>\<open>img.convert('RGBA')\<close> of a palette image: each index is replaced
  by its palette entry.
\<close>

definition convert_RGBA :: "image \<Rightarrow> image" where
  "convert_RGBA img = img\<lparr>mode := ''RGBA'', pix := (\<lambda>i. palette img (band 0 (pix img i)))\<rparr>"

text \<open>\<^verbatim>\<open>img.split()[-1]\<close>: the last band, as a mask.\<close>

definition split_last :: "image \<Rightarrow> nat \<Rightarrow> byte" where
  "split_last img = (\<lambda>i. band (getbands (mode img) - 1) (pix img i))"

text \<open>
  The library's blend of one band through a mask value,
  \<^verbatim>\<open>BLEND8(mask, in1, in2) = DIV255(in1 * (255 - mask) + in2 * mask)\<close> with
  \<^verbatim>\<open>DIV255(a) = (tmp = a + 128, ((tmp >> 8) + tmp) >> 8)\<close>.
\<close>

definition div255 :: "nat \<Rightarrow> nat" where
  "div255 a = (let tmp = a + 128 in (drop_bit 8 tmp + tmp) div 256)"

definition blend8 :: "byte \<Rightarrow> byte \<Rightarrow> byte \<Rightarrow> byte" where
  "blend8 msk in1 in2 = of_nat (div255 (unat in1 * (255 - unat msk) + unat in2 * unat msk))"

text \<open>
  The three colour bands an RGB destination takes from a pasted RGBA or LA
  source (a grey value stands for all three).
\<close>

definition as_rgb :: "image \<Rightarrow> nat \<Rightarrow> pixel" where
  "as_rgb img i =
     (if mode img = ''LA'' then [band 0 (pix img i), band 0 (pix img i), band 0 (pix img i)]
      else [band 0 (pix img i), band 1 (pix img i), band 2 (pix img i)])"

text \<open>
  \<^verbatim>\<open>dst.paste(src, mask=mask)\<close> with no box: the sizes must agree;
  with a mask each band is blended, without one the source replaces the
  destination.
\<close>

definition paste :: "image \<Rightarrow> image \<Rightarrow> (nat \<Rightarrow> byte) option \<Rightarrow> exn + image" where
  "paste dst src msk =
     (if isize src \<noteq> isize dst then Inl (ValueError ''images do not match'')
      else Inr (dst\<lparr>pix := (\<lambda>i. case msk of
                  None \<Rightarrow> as_rgb src i
                | Some m \<Rightarrow> map2 (blend8 (m i)) (pix dst i) (as_rgb src i))\<rparr>))"

text \<open>Lines 74 to 80: flattening an image with alpha or palette for JPEG.\<close>

definition flatten :: "image \<Rightarrow> exn + image" where
  "flatten img =
     (if mode img \<in> {''RGBA'', ''LA'', ''P''} then
        let rgb_img = Image_new ''RGB'' (isize img) (Some [255, 255, 255]);
            img1 = (if mode img = ''P'' then convert_RGBA img else img)
        in paste rgb_img img1
             (if mode img1 \<in> {''RGBA'', ''LA''} then Some (split_last img1) else None)
      else Inr img)"

definition optimize_jpg :: "pil \<Rightarrow> string \<Rightarrow> string option \<Rightarrow> int \<Rightarrow> int io" where
  "optimize_jpg lib input_path output_path0 quality =
     (let output_path = (case output_path0 of None \<Rightarrow> input_path | Some p \<Rightarrow> p) in
      io_bind (print (Optimizing input_path)) (\<lambda>_.
      io_bind (getsize input_path) (\<lambda>original_size.
      io_bind (Image_open lib input_path) (\<lambda>img0.
      case flatten img0 of
        Inl e \<Rightarrow> io_raise e
      | Inr img \<Rightarrow>
         (case strip img of
            Inl e \<Rightarrow> io_raise e
          | Inr image_without_exif \<Rightarrow>
              io_bind (Image_save lib image_without_exif output_path ''JPEG''
                         [(''quality'', I quality), (''optimize'', B True),
                          (''progressive'', B True)]) (\<lambda>_.
              report output_path original_size))))))"

definition optimize_webp :: "pil \<Rightarrow> string \<Rightarrow> string option \<Rightarrow> int \<Rightarrow> int io" where
  "optimize_webp lib input_path output_path0 quality =
     (let output_path = (case output_path0 of None \<Rightarrow> input_path | Some p \<Rightarrow> p) in
      io_bind (print (Optimizing input_path)) (\<lambda>_.
      io_bind (getsize input_path) (\<lambda>original_size.
      io_bind (Image_open lib input_path) (\<lambda>img.
      case strip img of
        Inl e \<Rightarrow> io_raise e
      | Inr image_without_exif \<Rightarrow>
          io_bind (Image_save lib image_without_exif output_path ''WEBP''
                     [(''quality'', I quality), (''method'', I 6)]) (\<lambda>_.
          report output_path original_size)))))"

definition images_to_optimize :: "(string \<times> string) list" where
  "images_to_optimize =
     [(''src/assets/covers/fracture-engine.png'', ''png''),
      (''public/covers/fracture-engine.png'', ''png''),
      (''src/assets/covers/fracture-engine.webp'', ''webp''),
      (''public/covers/fracture-engine.webp'', ''webp''),
      (''public/cache-mcclure-og.jpg'', ''jpg'')]"

text \<open>
  The local variables of \<^verbatim>\<open>main\<close> that live across iterations:
  \<^verbatim>\<open>total_saved\<close>, and \<^verbatim>\<open>new_size\<close>, which is unbound until
  the first assignment.
\<close>

type_synonym locals = "int \<times> int option"

text \<open>
  One iteration of the loop of \<^verbatim>\<open>main\<close> (lines 165 to 179).  A format
  that is none of the three leaves \<^verbatim>\<open>new_size\<close> as it was.
\<close>

definition loop_body :: "pil \<Rightarrow> string \<times> string \<Rightarrow> locals \<Rightarrow> locals io" where
  "loop_body lib entry vars =
     (case (entry, vars) of ((image_path, format_type), (total_saved, new_size0)) \<Rightarrow>
      io_bind (exists image_path) (\<lambda>found.
      if \<not> found then
        io_bind (print (Skipping image_path)) (\<lambda>_. io_return (total_saved, new_size0))
      else
        io_bind (getsize image_path) (\<lambda>original_size.
        io_bind
          (if format_type = ''png'' then
             io_bind (optimize_png lib image_path None 85) (\<lambda>n. io_return (Some n))
           else if format_type = ''jpg'' then
             io_bind (optimize_jpg lib image_path None 90) (\<lambda>n. io_return (Some n))
           else if format_type = ''webp'' then
             io_bind (optimize_webp lib image_path None 90) (\<lambda>n. io_return (Some n))
           else io_return new_size0) (\<lambda>new_size.
        case new_size of
          None \<Rightarrow> io_raise (UnboundLocalError ''new_size'')
        | Some n \<Rightarrow>
            io_bind (print Blank) (\<lambda>_.
            io_return (total_saved + (original_size - n), new_size))))))"

text \<open>The \<^verbatim>\<open>for\<close> loop: the body on each record in order; an exception ends it.\<close>

fun main_loop :: "pil \<Rightarrow> (string \<times> string) list \<Rightarrow> locals \<Rightarrow> locals io" where
  "main_loop lib [] vars = io_return vars"
| "main_loop lib (entry # rest) vars =
     io_bind (loop_body lib entry vars) (\<lambda>vars'. main_loop lib rest vars')"

definition main :: "pil \<Rightarrow> unit io" where
  "main lib =
     io_bind (main_loop lib images_to_optimize (0, None)) (\<lambda>vars.
     let total_saved = fst vars in
     io_bind (print (Total_space_saved total_saved (of_int total_saved / 1024))) (\<lambda>_.
     print All_optimized))"

text \<open>
  How a script ends: \<open>Exit n\<close> for a normal end (0) or \<^verbatim>\<open>exit(n)\<close>,
  \<open>Traceback e\<close> for an exception nobody caught, which the interpreter
  reports on standard error with exit code 1.
\<close>

datatype outcome = Exit nat | Traceback exn

fun exit_code :: "outcome \<Rightarrow> nat" where
  "exit_code (Exit n) = n"
| "exit_code (Traceback e) = 1"

text \<open>
  Running \<^verbatim>\<open>optimize-images.py\<close>: the import of line 6 fails when the
  library is absent (\<open>None\<close>); then \<^verbatim>\<open>main()\<close> with no handler.
\<close>

definition optimize_images_script :: "pil option \<Rightarrow> world \<Rightarrow> world \<times> outcome" where
  "optimize_images_script lib w =
     (case lib of
        None \<Rightarrow> (w, Traceback (ImportError ''No module named PIL''))
      | Some l \<Rightarrow>
          (case main l w of
             (w', Inl e) \<Rightarrow> (w', Traceback e)
           | (w', Inr _) \<Rightarrow> (w', Exit 0)))"


section \<open>The generator, \<^verbatim>\<open>scripts/generate-og-image.py\<close>\<close>

definition WIDTH :: nat where
  "WIDTH = 1200"

definition HEIGHT :: nat where
  "HEIGHT = 630"

definition BACKGROUND_COLOR :: pixel where
  "BACKGROUND_COLOR = [15, 23, 42]"

definition PRIMARY_COLOR :: pixel where
  "PRIMARY_COLOR = [148, 163, 184]"

definition ACCENT_COLOR :: pixel where
  "ACCENT_COLOR = [99, 102, 241]"

definition TEXT_COLOR :: pixel where
  "TEXT_COLOR = [241, 245, 249]"

text \<open>
  \<^verbatim>\<open>draw.rectangle([x0, y0, x1, y1], fill=c)\<close>: every pixel of the box,
  both corners included, takes the colour.
\<close>

definition rectangle :: "int \<times> int \<times> int \<times> int \<Rightarrow> pixel \<Rightarrow> image \<Rightarrow> image" where
  "rectangle xy fill img =
     (case xy of (x0, y0, x1, y1) \<Rightarrow>
        img\<lparr>pix := (\<lambda>i.
          let x = int (i mod fst (isize img)); y = int (i div fst (isize img))
          in if x0 \<le> x \<and> x \<le> x1 \<and> y0 \<le> y \<and> y \<le> y1 then fill else pix img i)\<rparr>)"

text \<open>\<^verbatim>\<open>ImageFont.load_default()\<close>.\<close>

definition load_default :: font where
  "load_default = DefaultFont"

text \<open>A call with \<^verbatim>\<open>font=None\<close> draws with the default font.\<close>

definition getfont :: "font option \<Rightarrow> font" where
  "getfont f = (case f of None \<Rightarrow> load_default | Some fnt \<Rightarrow> fnt)"

text \<open>\<^verbatim>\<open>ImageFont.truetype(path, size)\<close>: reads the font file.\<close>

definition truetype :: "pil \<Rightarrow> string \<Rightarrow> nat \<Rightarrow> font io" where
  "truetype lib p sz = (\<lambda>w. (log_io (Opened p) w,
     case files w p of
       None \<Rightarrow> Inl (OSError ''cannot open resource'')
     | Some b \<Rightarrow> (case ft_open lib b sz of Some e \<Rightarrow> Inl e | None \<Rightarrow> Inr (FreeTypeFont p sz))))"

text \<open>
  \<^verbatim>\<open>draw.text(xy, text, font=f, fill=c)\<close>: the text is rasterised and
  the colour is blended into the image through the coverage bitmap.
\<close>

definition draw_bitmap :: "int \<times> int \<Rightarrow> glyphs \<Rightarrow> pixel \<Rightarrow> image \<Rightarrow> image" where
  "draw_bitmap coord g ink img =
     (case (coord, g_size g) of ((cx, cy), (gw, gh)) \<Rightarrow>
        img\<lparr>pix := (\<lambda>i.
          let x = int (i mod fst (isize img)); y = int (i div fst (isize img))
          in if cx \<le> x \<and> x < cx + int gw \<and> cy \<le> y \<and> y < cy + int gh
             then map2 (blend8 (g_cov g (nat (x - cx)) (nat (y - cy)))) (pix img i) ink
             else pix img i)\<rparr>)"

definition draw_text :: "pil \<Rightarrow> int \<times> int \<Rightarrow> string \<Rightarrow> font option \<Rightarrow> pixel \<Rightarrow> image \<Rightarrow> exn + image" where
  "draw_text lib xy txt fnt fill img =
     (case getmask2 lib (getfont fnt) txt of
        Inl e \<Rightarrow> Inl e
      | Inr g \<Rightarrow> Inr (draw_bitmap (fst xy + fst (g_offset g), snd xy + snd (g_offset g)) g fill img))"

definition font_paths :: "string list" where
  "font_paths =
     [''/System/Library/Fonts/Supplemental/Arial Bold.ttf'',
      ''/usr/share/fonts/truetype/dejavu/DejaVuSans-Bold.ttf'',
      ''C:'' @ CHR 0x5C # ''Windows'' @ CHR 0x5C # ''Fonts'' @ CHR 0x5C # ''arialbd.ttf'']"

text \<open>
  The loop of lines 38 to 42 over the two variables \<^verbatim>\<open>title_font\<close>
  and \<^verbatim>\<open>subtitle_font\<close>; the first existing path loads both sizes
  and breaks.
\<close>

fun font_loop :: "pil \<Rightarrow> string list \<Rightarrow> font option \<times> font option \<Rightarrow> (font option \<times> font option) io" where
  "font_loop lib [] fonts = io_return fonts"
| "font_loop lib (font_path # rest) fonts =
     io_bind (exists font_path) (\<lambda>found.
     if found then
       io_bind (truetype lib font_path 80) (\<lambda>title_font.
       io_bind (truetype lib font_path 40) (\<lambda>subtitle_font.
       io_return (Some title_font, Some subtitle_font)))
     else font_loop lib rest fonts)"

text \<open>Lines 27 to 52: the \<^verbatim>\<open>try\<close> block and its handler.\<close>

definition select_fonts :: "pil \<Rightarrow> (font option \<times> font option) io" where
  "select_fonts lib = (\<lambda>w.
     case io_bind (font_loop lib font_paths (None, None)) (\<lambda>fonts.
            if fst fonts = None then io_return (Some load_default, Some load_default)
            else io_return fonts) w of
       (w', Inl e) \<Rightarrow> (w', Inr (Some load_default, Some load_default))
     | (w', Inr fonts) \<Rightarrow> (w', Inr fonts))"

text \<open>\<^verbatim>\<open>os.path.dirname\<close> and \<^verbatim>\<open>os.path.join\<close> (POSIX).\<close>

definition rstrip_sep :: "string \<Rightarrow> string" where
  "rstrip_sep p = rev (dropWhile (\<lambda>c. c = CHR ''/'') (rev p))"

definition dirname :: "string \<Rightarrow> string" where
  "dirname p =
     (let head = rev (dropWhile (\<lambda>c. c \<noteq> CHR ''/'') (rev p))
      in if head \<noteq> [] \<and> head \<noteq> replicate (length head) CHR ''/'' then rstrip_sep head else head)"

definition join2 :: "string \<Rightarrow> string \<Rightarrow> string" where
  "join2 path b =
     (if b \<noteq> [] \<and> hd b = CHR ''/'' then b
      else if path = [] \<or> last path = CHR ''/'' then path @ b
      else path @ ''/'' @ b)"

definition join :: "string \<Rightarrow> string list \<Rightarrow> string" where
  "join a ps = foldl join2 a ps"

definition output_path :: "string \<Rightarrow> string" where
  "output_path script_file =
     join (dirname (dirname script_file)) [''public'', ''cache-mcclure-og.jpg'']"

definition io_lift :: "exn + 'a \<Rightarrow> 'a io" where
  "io_lift r = (case r of Inl e \<Rightarrow> io_raise e | Inr x \<Rightarrow> io_return x)"

text \<open>
  Lines 54 to 99 of \<^verbatim>\<open>create_og_image()\<close>: the drawing on the canvas,
  with the fonts chosen before.  Only measuring and rasterising text can
  raise.
\<close>

definition draw_og_image :: "pil \<Rightarrow> font option \<times> font option \<Rightarrow> image \<Rightarrow> exn + image" where
  "draw_og_image lib fonts img0 =
     (let title_font = fst fonts; subtitle_font = snd fonts;
          line_y = int HEIGHT div 2 - 120;
          img1 = rectangle (100, line_y, 1100, line_y + 4) ACCENT_COLOR img0;
          line_y = int HEIGHT div 2 + 120;
          img2 = rectangle (100, line_y, 1100, line_y + 4) ACCENT_COLOR img1;
          corner_size = 40;
          corner_thickness = 4;
          img3 = rectangle (80, 80, 80 + corner_size, 80 + corner_thickness) ACCENT_COLOR img2;
          img4 = rectangle (80, 80, 80 + corner_thickness, 80 + corner_size) ACCENT_COLOR img3;
          img5 = rectangle (int WIDTH - 80 - corner_size, 80, int WIDTH - 80, 80 + corner_thickness)
                   ACCENT_COLOR img4;
          img6 = rectangle (int WIDTH - 80 - corner_thickness, 80, int WIDTH - 80, 80 + corner_size)
                   ACCENT_COLOR img5;
          img7 = rectangle (80, int HEIGHT - 80 - corner_thickness, 80 + corner_size, int HEIGHT - 80)
                   ACCENT_COLOR img6;
          img8 = rectangle (80, int HEIGHT - 80 - corner_size, 80 + corner_thickness, int HEIGHT - 80)
                   ACCENT_COLOR img7;
          img9 = rectangle (int WIDTH - 80 - corner_size, int HEIGHT - 80 - corner_thickness,
                            int WIDTH - 80, int HEIGHT - 80) ACCENT_COLOR img8;
          img10 = rectangle (int WIDTH - 80 - corner_thickness, int HEIGHT - 80 - corner_size,
                             int WIDTH - 80, int HEIGHT - 80) ACCENT_COLOR img9;
          title = ''CACHE McCLURE'';
          subtitle = ''Science Fiction Author''
      in
      case textbbox lib (getfont title_font) title of
        Inl e \<Rightarrow> Inl e
      | Inr title_bbox \<Rightarrow>
         (let title_width = fst (snd (snd title_bbox)) - fst title_bbox;
              title_x = (int WIDTH - title_width) div 2;
              title_y = int HEIGHT div 2 - 50
          in
          case textbbox lib (getfont subtitle_font) subtitle of
            Inl e \<Rightarrow> Inl e
          | Inr subtitle_bbox \<Rightarrow>
             (let subtitle_width = fst (snd (snd subtitle_bbox)) - fst subtitle_bbox;
                  subtitle_x = (int WIDTH - subtitle_width) div 2;
                  subtitle_y = int HEIGHT div 2 + 20
              in
              case draw_text lib (title_x, title_y) title title_font TEXT_COLOR img10 of
                Inl e \<Rightarrow> Inl e
              | Inr img11 \<Rightarrow>
                  draw_text lib (subtitle_x, subtitle_y) subtitle subtitle_font PRIMARY_COLOR img11)))"

text \<open>
  \<^verbatim>\<open>create_og_image()\<close>; the argument is the script's \<^verbatim>\<open>__file__\<close>.
  The canvas is created (line 23), the fonts are chosen (lines 27 to 52), the
  image is drawn, saved (lines 102 to 109) and reported (lines 111 to 122).
\<close>

definition create_og_image :: "pil \<Rightarrow> string \<Rightarrow> unit io" where
  "create_og_image lib script_file =
     (let img0 = Image_new ''RGB'' (WIDTH, HEIGHT) (Some BACKGROUND_COLOR) in
      io_bind (select_fonts lib) (\<lambda>fonts.
      io_bind (io_lift (draw_og_image lib fonts img0)) (\<lambda>img.
      let output_path = output_path script_file in
      io_bind (Image_save lib img output_path ''JPEG'' [(''quality'', I 90), (''optimize'', B True)]) (\<lambda>_.
      io_bind (print (Created output_path)) (\<lambda>_.
      io_bind (print (Dimensions WIDTH HEIGHT)) (\<lambda>_.
      io_bind (getsize output_path) (\<lambda>file_size.
      let file_size_kb = (of_int file_size / 1024 :: rat) in
      io_bind (print (File_size file_size_kb)) (\<lambda>_.
      if file_size_kb > 300 then print Warning_exceeds
      else print Within_limits))))))))"

text \<open>
  Running \<^verbatim>\<open>generate-og-image.py\<close>: the import of line 7 comes first
  and fails when the library is absent (\<open>None\<close>); the \<^verbatim>\<open>try\<close> of lines
  124 to 133 surrounds the call of \<^verbatim>\<open>create_og_image()\<close> only.
\<close>

definition generate_og_image_script :: "pil option \<Rightarrow> string \<Rightarrow> world \<Rightarrow> world \<times> outcome" where
  "generate_og_image_script lib script_file w =
     (case lib of
        None \<Rightarrow> (w, Traceback (ImportError ''No module named PIL''))
      | Some l \<Rightarrow>
          (case create_og_image l script_file w of
             (w', Inr _) \<Rightarrow> (w', Exit 0)
           | (w', Inl (ImportError m)) \<Rightarrow>
               (fst (io_bind (print Error_not_installed) (\<lambda>_. print Install_hint) w'), Exit 1)
           | (w', Inl e) \<Rightarrow> (fst (print (Error_creating e) w'), Exit 1)))"

section \<open>Definitions for stating and proving the properties\<close>

text \<open>
  The common shape of \<^verbatim>\<open>optimize_png\<close>, \<^verbatim>\<open>optimize_jpg\<close> and
  \<^verbatim>\<open>optimize_webp\<close> when they overwrite their input: prepare the
  opened image, strip it, save it in a format with parameters, report.  The
  three functions are shown to be instances of it.
\<close>

definition reencode :: "pil \<Rightarrow> (image \<Rightarrow> exn + image) \<Rightarrow> string \<Rightarrow> (string \<times> kwval) list \<Rightarrow> string \<Rightarrow> int io" where
  "reencode lib prep fmt params p =
      io_bind (print (Optimizing p)) (\<lambda>_.
      io_bind (getsize p) (\<lambda>original_size.
      io_bind (Image_open lib p) (\<lambda>img0.
      case prep img0 of
        Inl e \<Rightarrow> io_raise e
      | Inr img \<Rightarrow>
         (case strip img of
            Inl e \<Rightarrow> io_raise e
          | Inr image_without_exif \<Rightarrow>
              io_bind (Image_save lib image_without_exif p fmt params) (\<lambda>_.
              report p original_size)))))"

text \<open>The path an event reads or writes (none for a stat), and the path it names.\<close>

fun accessed :: "io_event \<Rightarrow> string list" where
  "accessed (Stat p) = []"
| "accessed (Opened p) = [p]"
| "accessed (Wrote p r) = [p]"

fun io_path :: "io_event \<Rightarrow> string" where
  "io_path (Stat p) = p"
| "io_path (Opened p) = p"
| "io_path (Wrote p r) = p"

text \<open>The save requests of a log, in order.\<close>

fun written :: "io_event \<Rightarrow> (string \<times> save_req) list" where
  "written (Stat p) = []"
| "written (Opened p) = []"
| "written (Wrote p r) = [(p, r)]"

definition writes :: "io_event list \<Rightarrow> (string \<times> save_req) list" where
  "writes evs = concat (map written evs)"

text \<open>The image that \<open>strip\<close> returns.\<close>

definition stripped :: "image \<Rightarrow> image" where
  "stripped img = Image_new (mode img) (isize img) None
      \<lparr>pix := (\<lambda>i. if i < fst (isize img) * snd (isize img) then pix img i else replicate (getbands (mode img)) 0)\<rparr>"

text \<open>
  What the optimizer is to print for one record, from the files before and
  after the run: the skip message for a missing file, otherwise the four report
  lines with savings \<open>original - new\<close> and percentage
  \<open>savings / original * 100\<close>, and the blank line.
\<close>

definition size_of :: "(string \<rightharpoonup> bytes) \<Rightarrow> string \<Rightarrow> int" where
  "size_of fs p = (case fs p of None \<Rightarrow> 0 | Some b \<Rightarrow> int (length b))"

definition entry_savings :: "(string \<rightharpoonup> bytes) \<Rightarrow> (string \<rightharpoonup> bytes) \<Rightarrow> string \<Rightarrow> int" where
  "entry_savings before after p =
     (case before p of None \<Rightarrow> 0 | Some b \<Rightarrow> size_of before p - size_of after p)"

definition entry_report :: "(string \<rightharpoonup> bytes) \<Rightarrow> (string \<rightharpoonup> bytes) \<Rightarrow> string \<Rightarrow> line list" where
  "entry_report before after p =
     (case before p of
        None \<Rightarrow> [Skipping p]
      | Some b \<Rightarrow>
          [Optimizing p, Original (size_of before p), Optimized (size_of after p),
           Saved (size_of before p - size_of after p)
             (of_int (size_of before p - size_of after p) / of_int (size_of before p) * 100),
           Blank])"

text \<open>The formats \<^verbatim>\<open>main\<close> dispatches on.\<close>

definition known_format :: "string \<times> string \<Rightarrow> bool" where
  "known_format entry = (snd entry = ''png'' \<or> snd entry = ''jpg'' \<or> snd entry = ''webp'')"

text \<open>The grand total line.\<close>

definition is_total :: "line \<Rightarrow> bool" where
  "is_total l = (case l of Total_space_saved t k \<Rightarrow> True | _ \<Rightarrow> False)"

text \<open>
  The source of a flattening as the paste sees it (a palette image converted
  to RGBA first), its alpha value and its three colour bands at a pixel.
\<close>

definition rgba_source :: "image \<Rightarrow> image" where
  "rgba_source img = (if mode img = ''P'' then convert_RGBA img else img)"

definition alpha_of :: "image \<Rightarrow> nat \<Rightarrow> byte" where
  "alpha_of img i = split_last (rgba_source img) i"

definition colour_of :: "image \<Rightarrow> nat \<Rightarrow> pixel" where
  "colour_of img i = as_rgb (rgba_source img) i"

text \<open>
  What is observable of a save: path, format, parameters, and mode, size and
  pixel data of the image handed to the encoder; and that image's metadata.
\<close>

definition write_summary ::
  "string \<times> save_req \<Rightarrow> string \<times> string \<times> (string \<times> kwval) list \<times> string \<times> (nat \<times> nat) \<times> pixel list" where
  "write_summary pr =
     (fst pr, sformat (snd pr), sparams (snd pr), mode (simage (snd pr)), isize (simage (snd pr)),
      getdata (simage (snd pr)))"


text \<open>
  The first path of a list that names a file, with the file; the fonts that
  the generator is to end up with, and the file accesses of choosing them.
\<close>

fun first_existing :: "(string \<rightharpoonup> bytes) \<Rightarrow> string list \<Rightarrow> (string \<times> bytes) option" where
  "first_existing fs [] = None"
| "first_existing fs (p # ps) =
     (case fs p of Some b \<Rightarrow> Some (p, b) | None \<Rightarrow> first_existing fs ps)"

definition chosen_fonts :: "pil \<Rightarrow> (string \<rightharpoonup> bytes) \<Rightarrow> font option \<times> font option" where
  "chosen_fonts lib fs =
     (case first_existing fs font_paths of
        None \<Rightarrow> (Some load_default, Some load_default)
      | Some (p, b) \<Rightarrow>
          if ft_open lib b 80 = None \<and> ft_open lib b 40 = None
          then (Some (FreeTypeFont p 80), Some (FreeTypeFont p 40))
          else (Some load_default, Some load_default))"

definition font_events :: "pil \<Rightarrow> (string \<rightharpoonup> bytes) \<Rightarrow> io_event list" where
  "font_events lib fs =
     (case first_existing fs font_paths of
        None \<Rightarrow> map Stat font_paths
      | Some (p, b) \<Rightarrow>
          map Stat (takeWhile (\<lambda>q. fs q = None) font_paths) @ [Stat p, Opened p]
            @ (if ft_open lib b 80 = None then [Opened p] else []))"

text \<open>
  The imaging library's JPEG encoder writes a progressive file when the save
  parameter \<^verbatim>\<open>progressive\<close> or \<^verbatim>\<open>progression\<close> is given and
  true, and a baseline file otherwise.
\<close>

definition kw_true :: "kwval option \<Rightarrow> bool" where
  "kw_true v = (case v of None \<Rightarrow> False | Some (B b) \<Rightarrow> b | Some (I n) \<Rightarrow> n \<noteq> 0)"

definition jpeg_progressive :: "save_req \<Rightarrow> bool" where
  "jpeg_progressive r =
     (kw_true (map_of (sparams r) ''progressive'') \<or> kw_true (map_of (sparams r) ''progression''))"

text \<open>The observable part of a save without the pixel data.\<close>

definition write_header ::
  "string \<times> save_req \<Rightarrow> string \<times> string \<times> (string \<times> kwval) list \<times> string \<times> (nat \<times> nat)" where
  "write_header pr =
     (fst pr, sformat (snd pr), sparams (snd pr), mode (simage (snd pr)), isize (simage (snd pr)))"

text \<open>
  How a run may change the world when it touches the paths \<open>S\<close> only:
  no file appears or disappears, files outside \<open>S\<close> keep their content,
  the log grows by events on \<open>S\<close> that open or write existing files only,
  and the output grows by lines other than the grand total.
\<close>

definition extends :: "string set \<Rightarrow> world \<Rightarrow> world \<Rightarrow> bool" where
  "extends S w w' =
     ((\<forall>q. (files w' q = None) = (files w q = None)) \<and>
      (\<forall>q. q \<notin> S \<longrightarrow> files w' q = files w q) \<and>
      (\<exists>evs. io_log w' = io_log w @ evs \<and> set (map io_path evs) \<subseteq> S \<and>
             set (concat (map accessed evs)) \<subseteq> dom (files w)) \<and>
      (\<exists>ls. stdout w' = stdout w @ ls \<and> \<not> list_ex is_total ls))"

subsection \<open>Concrete inputs\<close>

text \<open>
  A two-pixel RGBA image with EXIF data whose first pixel is transparent, a
  one-pixel RGB image with an ICC profile, a library whose decoder tells them
  apart by the first byte and whose encoder writes one zero byte per save
  parameter, and two worlds for the optimizer; in the second one the
  second record is an empty file, which the decoder rejects.
\<close>

definition img_rgba :: image where
  "img_rgba = \<lparr>mode = ''RGBA'', isize = (2, 1),
      pix = (\<lambda>i. if i = 0 then [10, 20, 30, 0] else [40, 50, 60, 255]),
      palette = default_palette, info = [(''exif'', [1, 2, 3])]\<rparr>"

definition img_rgb :: image where
  "img_rgb = \<lparr>mode = ''RGB'', isize = (1, 1), pix = (\<lambda>i. [7, 8, 9]),
      palette = default_palette, info = [(''icc_profile'', [4])]\<rparr>"

definition lib0 :: pil where
  "lib0 = \<lparr>decode = (\<lambda>b. if b = [] then Inl (UnidentifiedImageError ''cannot identify image file'')
                        else if hd b = 1 then Inr img_rgba else Inr img_rgb),
            encode = (\<lambda>r. Inr (replicate (length (sparams r)) 0)),
            ft_open = (\<lambda>b sz. None),
            textbbox = (\<lambda>f s. Inr (0, 0, 10 * int (length s), 12)),
            getmask2 = (\<lambda>f s. Inr \<lparr>g_offset = (0, 0), g_size = (10 * length s, 12),
                                    g_cov = (\<lambda>x y. 255)\<rparr>)\<rparr>"

definition w0 :: world where
  "w0 = \<lparr>files = [''public/covers/fracture-engine.png'' \<mapsto> [2, 2, 2, 2],
                  ''public/cache-mcclure-og.jpg'' \<mapsto> [1, 1, 1, 1, 1, 1]],
          stdout = [], io_log = []\<rparr>"

definition w_bad :: world where
  "w_bad = \<lparr>files = [''src/assets/covers/fracture-engine.png'' \<mapsto> [2, 2, 2, 2],
                     ''public/covers/fracture-engine.png'' \<mapsto> [],
                     ''public/cache-mcclure-og.jpg'' \<mapsto> [1, 1, 1, 1, 1, 1]],
             stdout = [], io_log = []\<rparr>"

text \<open>The worlds in the middle of these runs.\<close>

definition w0_mid :: world where
  "w0_mid = fst (main_loop lib0 (take 2 images_to_optimize) (0, None) w0)"

definition w_bad_mid :: world where
  "w_bad_mid = fst (main_loop lib0 (take 1 images_to_optimize) (0, None) w_bad)"

definition w_bad_end :: world where
  "w_bad_end = fst (loop_body lib0 (images_to_optimize ! 1) (2, Some 2) w_bad_mid)"

text \<open>
  Worlds for the generator: no file at all, and the Linux font present; and a
  library whose encoder writes 307201 bytes.
\<close>

definition w_gen :: world where
  "w_gen = \<lparr>files = Map.empty, stdout = [], io_log = []\<rparr>"

definition w_font :: world where
  "w_font = \<lparr>files = [''/usr/share/fonts/truetype/dejavu/DejaVuSans-Bold.ttf'' \<mapsto> [0]],
              stdout = [], io_log = []\<rparr>"

definition lib_big :: pil where
  "lib_big = lib0\<lparr>encode := (\<lambda>r. Inr (replicate 307201 0))\<rparr>"

section \<open>Lemmas about the optimizer\<close>

text \<open>
  Stripping never raises, and the three functions are instances of
  \<open>reencode\<close> when they overwrite their input.
\<close>

lemma strip_ok: "strip img = Inr (stripped img)"
  by (auto simp: strip_def putdata_def getdata_def Image_new_def Let_def fun_eq_iff stripped_def)

lemma png_reencode: "optimize_png lib p None q = reencode lib Inr ''PNG'' [(''optimize'', B True), (''compress_level'', I 9)] p"
  by (simp add: optimize_png_def reencode_def)

lemma webp_reencode: "optimize_webp lib p None q = reencode lib Inr ''WEBP'' [(''quality'', I q), (''method'', I 6)] p"
  by (simp add: optimize_webp_def reencode_def)

lemma jpg_reencode: "optimize_jpg lib p None q = reencode lib flatten ''JPEG'' [(''quality'', I q), (''optimize'', B True), (''progressive'', B True)] p"
  by (simp add: optimize_jpg_def reencode_def)

text \<open>
  A re-encoding that returns, and what any re-encoding leaves unchanged.
\<close>

lemma reencode_success:
  assumes "reencode lib prep fmt params p w = (w', Inr n)"
  shows "\<exists>b img0 img b'. files w p = Some b \<and> decode lib b = Inr img0 \<and> prep img0 = Inr img \<and>
          encode lib \<lparr>sformat = fmt, sparams = params, simage = stripped img\<rparr> = Inr b' \<and>
          b \<noteq> [] \<and> n = int (length b') \<and>
          w' = \<lparr>files = (files w)(p \<mapsto> b'),
                stdout = stdout w @ [Optimizing p, Original (int (length b)), Optimized (int (length b')),
                   Saved (int (length b) - int (length b'))
                     (of_int (int (length b) - int (length b')) / of_int (int (length b)) * 100)],
                io_log = io_log w @ [Stat p, Opened p,
                    Wrote p \<lparr>sformat = fmt, sparams = params, simage = stripped img\<rparr>, Stat p]\<rparr>"
  using assms
  by (auto simp: reencode_def io_bind_def print_def getsize_def log_io_def Image_open_def strip_ok
       Image_save_def report_def truediv_def io_raise_def io_return_def Let_def
       split: option.splits sum.splits if_splits prod.splits)

lemma reencode_frame:
  assumes "reencode lib prep fmt params p w = (w', r)"
  shows "(\<forall>q. (files w' q = None) = (files w q = None)) \<and> (\<forall>q. q \<noteq> p \<longrightarrow> files w' q = files w q) \<and>
         (\<exists>evs. io_log w' = io_log w @ evs \<and> set (map io_path evs) \<subseteq> {p} \<and>
            set (concat (map accessed evs)) \<subseteq> dom (files w)) \<and>
         (\<exists>ls. stdout w' = stdout w @ ls \<and> \<not> list_ex is_total ls)"
  using assms
  by (auto simp: reencode_def io_bind_def print_def getsize_def log_io_def Image_open_def strip_ok
       Image_save_def report_def truediv_def io_raise_def io_return_def Let_def is_total_def
       split: option.splits sum.splits if_splits prod.splits)

text \<open>The loop body on a missing and on an existing file.\<close>

lemma loop_body_missing:
  "files w p = None \<Longrightarrow> loop_body lib (p, f) vars w =
     (w\<lparr>stdout := stdout w @ [Skipping p], io_log := io_log w @ [Stat p]\<rparr>, Inr vars)"
  by (cases vars) (simp add: loop_body_def io_bind_def exists_def log_io_def print_def io_return_def)

lemma loop_body_present:
  "files w p = Some b \<Longrightarrow> loop_body lib (p, f) (t, ns) w =
     io_bind (if f = ''png'' then
             io_bind (optimize_png lib p None 85) (\<lambda>n. io_return (Some n))
           else if f = ''jpg'' then
             io_bind (optimize_jpg lib p None 90) (\<lambda>n. io_return (Some n))
           else if f = ''webp'' then
             io_bind (optimize_webp lib p None 90) (\<lambda>n. io_return (Some n))
           else io_return ns) (\<lambda>new_size.
        case new_size of
          None \<Rightarrow> io_raise (UnboundLocalError ''new_size'')
        | Some n \<Rightarrow>
            io_bind (print Blank) (\<lambda>_.
            io_return (t + (int (length b) - n), new_size)))
       (w\<lparr>io_log := io_log w @ [Stat p, Stat p]\<rparr>)"
  by (simp add: loop_body_def io_bind_def exists_def log_io_def getsize_def)

lemma loop_body_frame:
  assumes "loop_body lib (p, f) vars w = (w', r)"
  shows "(\<forall>q. (files w' q = None) = (files w q = None)) \<and> (\<forall>q. q \<noteq> p \<longrightarrow> files w' q = files w q) \<and>
         (\<exists>evs. io_log w' = io_log w @ evs \<and> set (map io_path evs) \<subseteq> {p} \<and>
            set (concat (map accessed evs)) \<subseteq> dom (files w)) \<and>
         (\<exists>ls. stdout w' = stdout w @ ls \<and> \<not> list_ex is_total ls)"
proof (cases "files w p")
  case None
  with assms show ?thesis by (auto simp: loop_body_missing is_total_def)
next
  case (Some b)
  obtain t ns where vars: "vars = (t, ns)" by (cases vars)
  let ?w1 = "w\<lparr>io_log := io_log w @ [Stat p, Stat p]\<rparr>"
  have fr: "\<And>prep fmt params w2 r2. reencode lib prep fmt params p ?w1 = (w2, r2) \<Longrightarrow>
     (\<forall>q. (files w2 q = None) = (files w q = None)) \<and> (\<forall>q. q \<noteq> p \<longrightarrow> files w2 q = files w q) \<and>
         (\<exists>evs. io_log w2 = io_log w @ evs \<and> set (map io_path evs) \<subseteq> {p} \<and>
            set (concat (map accessed evs)) \<subseteq> dom (files w)) \<and>
         (\<exists>ls. stdout w2 = stdout w @ ls \<and> \<not> list_ex is_total ls)"
    by (drule reencode_frame) auto
  from assms Some vars show ?thesis
    apply (simp add: loop_body_present png_reencode jpg_reencode webp_reencode)
    apply (auto simp: io_bind_def io_return_def io_raise_def print_def is_total_def
                  png_reencode jpg_reencode webp_reencode
                split: if_splits prod.splits sum.splits option.splits dest!: fr)
    done
qed

lemma loop_body_success:
  assumes "loop_body lib (p, f) (t, ns) w = (w', Inr vars')" and "files w p = Some b"
    and "known_format (p, f)"
  shows "\<exists>b'. files w' = (files w)(p \<mapsto> b') \<and> b \<noteq> [] \<and>
           vars' = (t + (int (length b) - int (length b')), Some (int (length b'))) \<and>
           stdout w' = stdout w @ [Optimizing p, Original (int (length b)), Optimized (int (length b')),
                   Saved (int (length b) - int (length b'))
                     (of_int (int (length b) - int (length b')) / of_int (int (length b)) * 100), Blank]"
proof -
  let ?w1 = "w\<lparr>io_log := io_log w @ [Stat p, Stat p]\<rparr>"
  have f1: "files ?w1 = files w" "stdout ?w1 = stdout w" by simp_all
  from assms show ?thesis
    apply (simp add: loop_body_present known_format_def)
    apply (auto simp: io_bind_def io_return_def io_raise_def print_def
                  png_reencode jpg_reencode webp_reencode
                split: if_splits prod.splits sum.splits option.splits dest!: reencode_success)
    done
qed

text \<open>The loop, one record at a time.\<close>

lemma main_loop_Cons:
  "main_loop lib ((p, f) # rest) vars w =
     (case loop_body lib (p, f) vars w of
        (w1, Inl e) \<Rightarrow> (w1, Inl e)
      | (w1, Inr vars1) \<Rightarrow> main_loop lib rest vars1 w1)"
  by (simp add: io_bind_def split: prod.splits sum.splits)

lemma main_loop_Cons_success:
  assumes "main_loop lib ((p, f) # rest) vars w = (w', Inr r)"
  shows "\<exists>w1 t1 ns1. loop_body lib (p, f) vars w = (w1, Inr (t1, ns1)) \<and>
           main_loop lib rest (t1, ns1) w1 = (w', Inr r)"
proof (cases "loop_body lib (p, f) vars w")
  case (Pair w1 res)
  show ?thesis
  proof (cases res)
    case (Inl e)
    with Pair assms show ?thesis by (simp add: io_bind_def)
  next
    case (Inr vars1)
    with Pair assms show ?thesis by (cases vars1) (simp add: io_bind_def)
  qed
qed

lemma main_loop_success:
  assumes "main_loop lib wl (t, ns) w = (w', Inr (t', ns'))"
    and "distinct (map fst wl)" and "list_all known_format wl"
  shows "stdout w' = stdout w @ concat (map (entry_report (files w) (files w')) (map fst wl)) \<and>
         t' = t + sum_list (map (entry_savings (files w) (files w')) (map fst wl)) \<and>
         (\<forall>q. q \<notin> fst ` set wl \<longrightarrow> files w' q = files w q) \<and>
         (\<forall>q. (files w' q = None) = (files w q = None))"
  using assms
proof (induction wl arbitrary: t ns w)
  case Nil
  then show ?case by (simp add: io_return_def)
next
  case (Cons entry rest)
  obtain p f where entry: "entry = (p, f)" by (cases entry)
  from main_loop_Cons_success [OF Cons.prems(1) [unfolded entry]] obtain w1 t1 ns1 where
    body: "loop_body lib (p, f) (t, ns) w = (w1, Inr (t1, ns1))" and
    rest: "main_loop lib rest (t1, ns1) w1 = (w', Inr (t', ns'))"
    by blast
  from Cons.prems have d: "distinct (map fst rest)" "p \<notin> fst ` set rest" and k: "list_all known_format rest"
     and kf: "known_format (p, f)"
    by (auto simp: entry)
  note IH = Cons.IH [OF rest d(1) k]
  have fr: "\<forall>q. q \<noteq> p \<longrightarrow> files w1 q = files w q" "\<forall>q. (files w1 q = None) = (files w q = None)"
    using loop_body_frame [OF body] by auto
  have same: "files w1 q = files w q" if "q \<in> fst ` set rest" for q
  proof -
    from that d(2) have "q \<noteq> p" by auto
    with fr(1) show ?thesis by simp
  qed
  have sz: "size_of (files w1) q = size_of (files w) q" if "q \<in> fst ` set rest" for q
    using same [OF that] by (simp add: size_of_def)
  have er: "entry_report (files w1) (files w') q = entry_report (files w) (files w') q"
    if "q \<in> set (map fst rest)" for q
    using that same [of q] sz [of q] by (simp add: entry_report_def split: option.splits)
  have es: "entry_savings (files w1) (files w') q = entry_savings (files w) (files w') q"
    if "q \<in> set (map fst rest)" for q
    using that same [of q] sz [of q] by (simp add: entry_savings_def split: option.splits)
  have maps: "map (entry_report (files w1) (files w')) (map fst rest) = map (entry_report (files w) (files w')) (map fst rest)"
     "map (entry_savings (files w1) (files w')) (map fst rest) = map (entry_savings (files w) (files w')) (map fst rest)"
    using er es by (simp_all cong: map_cong)
  have p': "files w' p = files w1 p" using IH d(2) by auto
  have head: "stdout w1 = stdout w @ entry_report (files w) (files w') p \<and> t1 = t + entry_savings (files w) (files w') p"
  proof (cases "files w p")
    case None
    with body p' show ?thesis
      by (auto simp: loop_body_missing entry_report_def entry_savings_def)
  next
    case (Some b)
    from loop_body_success [OF body Some kf] p' Some show ?thesis
      by (auto simp: entry_report_def entry_savings_def size_of_def)
  qed
  have "stdout w' = stdout w1 @ concat (map (entry_report (files w1) (files w')) (map fst rest))"
    using IH by blast
  then have c1: "stdout w' = stdout w @ concat (map (entry_report (files w) (files w')) (map fst (entry # rest)))"
    unfolding maps(1) using head by (simp add: entry)
  have "t' = t1 + sum_list (map (entry_savings (files w1) (files w')) (map fst rest))"
    using IH by blast
  then have c2: "t' = t + sum_list (map (entry_savings (files w) (files w')) (map fst (entry # rest)))"
    unfolding maps(2) using head by (simp add: entry)
  have c3: "\<forall>q. q \<notin> fst ` set (entry # rest) \<longrightarrow> files w' q = files w q"
    using IH fr(1) by (simp add: entry)
  have c4: "\<forall>q. (files w' q = None) = (files w q = None)"
    using IH fr(2) by simp
  show ?case using c1 c2 c3 c4 by blast
qed

lemma worklist_distinct: "distinct (map fst images_to_optimize)"
  by (simp add: images_to_optimize_def)

lemma worklist_known: "list_all known_format images_to_optimize"
  by (simp add: images_to_optimize_def known_format_def)

text \<open>
  The full result of a re-encoding and of the loop body, by cases on the file,
  the decoder and the encoder.
\<close>

lemma reencode_eval:
  "reencode lib prep fmt params p w =
     (case files w p of
        None \<Rightarrow> (w\<lparr>stdout := stdout w @ [Optimizing p], io_log := io_log w @ [Stat p]\<rparr>,
                 Inl (FileNotFoundError p))
      | Some b \<Rightarrow>
          (case decode lib b of
             Inl e \<Rightarrow> (w\<lparr>stdout := stdout w @ [Optimizing p],
                         io_log := io_log w @ [Stat p, Opened p]\<rparr>, Inl e)
           | Inr img0 \<Rightarrow>
               (case prep img0 of
                  Inl e \<Rightarrow> (w\<lparr>stdout := stdout w @ [Optimizing p],
                              io_log := io_log w @ [Stat p, Opened p]\<rparr>, Inl e)
                | Inr img \<Rightarrow>
                    (let req = \<lparr>sformat = fmt, sparams = params, simage = stripped img\<rparr> in
                     case encode lib req of
                       Inl (e, part) \<Rightarrow>
                         (\<lparr>files = (files w)(p \<mapsto> part), stdout = stdout w @ [Optimizing p],
                           io_log = io_log w @ [Stat p, Opened p, Wrote p req]\<rparr>, Inl e)
                     | Inr b' \<Rightarrow>
                         (if b = [] then
                            (\<lparr>files = (files w)(p \<mapsto> b'), stdout = stdout w @ [Optimizing p],
                              io_log = io_log w @ [Stat p, Opened p, Wrote p req, Stat p]\<rparr>,
                             Inl (ZeroDivisionError ''division by zero''))
                          else
                            (\<lparr>files = (files w)(p \<mapsto> b'),
                              stdout = stdout w @ [Optimizing p, Original (int (length b)),
                                 Optimized (int (length b')),
                                 Saved (int (length b) - int (length b'))
                                   (of_int (int (length b) - int (length b')) / of_int (int (length b)) * 100)],
                              io_log = io_log w @ [Stat p, Opened p, Wrote p req, Stat p]\<rparr>,
                             Inr (int (length b'))))))))"
  by (simp add: reencode_def io_bind_def print_def getsize_def log_io_def Image_open_def strip_ok
       Image_save_def report_def truediv_def io_raise_def io_return_def Let_def
       split: option.splits sum.splits prod.splits)

lemma loop_body_eval:
  "loop_body lib (p, f) (t, ns) w =
     (case files w p of
        None \<Rightarrow> (w\<lparr>stdout := stdout w @ [Skipping p], io_log := io_log w @ [Stat p]\<rparr>, Inr (t, ns))
      | Some b \<Rightarrow>
          (case (if f = ''png'' then
                   io_bind (reencode lib Inr ''PNG'' [(''optimize'', B True), (''compress_level'', I 9)] p)
                     (\<lambda>n. io_return (Some n))
                 else if f = ''jpg'' then
                   io_bind (reencode lib flatten ''JPEG''
                      [(''quality'', I 90), (''optimize'', B True), (''progressive'', B True)] p)
                     (\<lambda>n. io_return (Some n))
                 else if f = ''webp'' then
                   io_bind (reencode lib Inr ''WEBP'' [(''quality'', I 90), (''method'', I 6)] p)
                     (\<lambda>n. io_return (Some n))
                 else io_return ns) (w\<lparr>io_log := io_log w @ [Stat p, Stat p]\<rparr>) of
             (w1, Inl e) \<Rightarrow> (w1, Inl e)
           | (w1, Inr None) \<Rightarrow> (w1, Inl (UnboundLocalError ''new_size''))
           | (w1, Inr (Some n)) \<Rightarrow>
               (w1\<lparr>stdout := stdout w1 @ [Blank]\<rparr>, Inr (t + (int (length b) - n), Some n))))"
  by (cases "files w p")
     (auto simp: loop_body_missing loop_body_present png_reencode jpg_reencode webp_reencode
        io_bind_def io_return_def io_raise_def print_def split: prod.splits sum.splits option.splits)

text \<open>What a run of the loop leaves unchanged, whatever its outcome.\<close>

lemma extends_refl: "extends S w w"
  by (simp add: extends_def)

lemma dom_eq_None: "(\<forall>q. (f q = None) = (g q = None)) \<Longrightarrow> dom f = dom g"
  by (auto simp: dom_def)

lemma extends_trans:
  assumes "extends S w w1" and "extends T w1 w2"
  shows "extends (S \<union> T) w w2"
proof -
  from assms(1) obtain evs1 ls1 where
    a: "\<forall>q. (files w1 q = None) = (files w q = None)" "\<forall>q. q \<notin> S \<longrightarrow> files w1 q = files w q"
       "io_log w1 = io_log w @ evs1" "set (map io_path evs1) \<subseteq> S"
       "set (concat (map accessed evs1)) \<subseteq> dom (files w)"
       "stdout w1 = stdout w @ ls1" "\<not> list_ex is_total ls1"
    unfolding extends_def by blast
  from assms(2) obtain evs2 ls2 where
    b: "\<forall>q. (files w2 q = None) = (files w1 q = None)" "\<forall>q. q \<notin> T \<longrightarrow> files w2 q = files w1 q"
       "io_log w2 = io_log w1 @ evs2" "set (map io_path evs2) \<subseteq> T"
       "set (concat (map accessed evs2)) \<subseteq> dom (files w1)"
       "stdout w2 = stdout w1 @ ls2" "\<not> list_ex is_total ls2"
    unfolding extends_def by blast
  have d: "dom (files w1) = dom (files w)" using a(1) by (rule dom_eq_None)
  have 1: "\<forall>q. (files w2 q = None) = (files w q = None)" using a(1) b(1) by simp
  have 2: "\<forall>q. q \<notin> S \<union> T \<longrightarrow> files w2 q = files w q" using a(2) b(2) by simp
  have 3: "io_log w2 = io_log w @ (evs1 @ evs2)" using a(3) b(3) by simp
  have 4: "set (map io_path (evs1 @ evs2)) \<subseteq> S \<union> T" using a(4) b(4) by auto
  have 5: "set (concat (map accessed (evs1 @ evs2))) \<subseteq> dom (files w)"
    using a(5) b(5) unfolding d by auto
  have 6: "stdout w2 = stdout w @ (ls1 @ ls2)" using a(6) b(6) by simp
  have 7: "\<not> list_ex is_total (ls1 @ ls2)" using a(7) b(7) by simp
  show ?thesis unfolding extends_def using 1 2 3 4 5 6 7 by blast
qed

lemma extends_mono: "extends S w w' \<Longrightarrow> S \<subseteq> T \<Longrightarrow> extends T w w'"
  unfolding extends_def by (elim conjE exE) (intro conjI exI, auto)

lemma loop_body_extends:
  "loop_body lib (p, f) vars w = (w', r) \<Longrightarrow> extends {p} w w'"
  unfolding extends_def by (drule loop_body_frame) simp

lemma main_loop_extends:
  "main_loop lib wl vars w = (w', r) \<Longrightarrow> extends (fst ` set wl) w w'"
proof (induction wl arbitrary: vars w)
  case Nil
  then show ?case by (auto simp: io_return_def extends_refl)
next
  case (Cons entry rest)
  obtain p f where entry: "entry = (p, f)" by (cases entry)
  obtain w1 r1 where body: "loop_body lib (p, f) vars w = (w1, r1)" by (cases "loop_body lib (p, f) vars w")
  have e1: "extends {p} w w1" using body by (rule loop_body_extends)
  show ?case
  proof (cases r1)
    case (Inl e)
    with Cons.prems [unfolded entry main_loop_Cons] body have "w' = w1" by simp
    with e1 show ?thesis by (auto simp: entry intro: extends_mono)
  next
    case (Inr vars1)
    with Cons.prems [unfolded entry main_loop_Cons] body have "main_loop lib rest vars1 w1 = (w', r)" by simp
    then have "extends (fst ` set rest) w1 w'" by (rule Cons.IH)
    with e1 have "extends ({p} \<union> fst ` set rest) w w'" by (rule extends_trans)
    then show ?thesis by (simp add: entry)
  qed
qed

lemma main_loop_append:
  "main_loop lib (pre @ post) vars w =
     (case main_loop lib pre vars w of
        (w1, Inl e) \<Rightarrow> (w1, Inl e)
      | (w1, Inr vars1) \<Rightarrow> main_loop lib post vars1 w1)"
proof (induction pre arbitrary: vars w)
  case Nil
  then show ?case by (simp add: io_return_def)
next
  case (Cons entry pre)
  obtain p f where entry: "entry = (p, f)" by (cases entry)
  show ?case
    unfolding entry append_Cons main_loop_Cons
    by (simp add: Cons.IH split: prod.splits sum.splits)
qed

lemma main_after_loop:
  "\<exists>w' r. main_loop lib images_to_optimize (0, None) w = (w', r) \<and>
          files (fst (main lib w)) = files w' \<and> io_log (fst (main lib w)) = io_log w'"
  by (cases "main_loop lib images_to_optimize (0, None) w")
     (auto simp: main_def io_bind_def print_def Let_def split: sum.splits)

lemma main_raises:
  "main_loop lib images_to_optimize (0, None) w = (w', Inl e) \<Longrightarrow> main lib w = (w', Inl e)"
  by (simp add: main_def io_bind_def)

text \<open>The run of \<^verbatim>\<open>main\<close> on the concrete world \<open>w0\<close>.\<close>

lemma main_w0:
  "main lib0 w0 =
     (\<lparr>files = [''public/covers/fracture-engine.png'' \<mapsto> [0, 0],
                ''public/cache-mcclure-og.jpg'' \<mapsto> [0, 0, 0]],
       stdout = [Skipping ''src/assets/covers/fracture-engine.png'',
                 Optimizing ''public/covers/fracture-engine.png'',
                 Original 4, Optimized 2, Saved 2 50, Blank,
                 Skipping ''src/assets/covers/fracture-engine.webp'',
                 Skipping ''public/covers/fracture-engine.webp'',
                 Optimizing ''public/cache-mcclure-og.jpg'',
                 Original 6, Optimized 3, Saved 3 50, Blank,
                 Total_space_saved 5 (5 / 1024), All_optimized],
       io_log = io_log (fst (main lib0 w0))\<rparr>, Inr ())"
  by (simp add: main_def images_to_optimize_def loop_body_eval reencode_eval io_bind_def
        io_return_def print_def flatten_def paste_def Image_new_def lib0_def w0_def
        img_rgba_def img_rgb_def Let_def)

text \<open>The runs on the other concrete worlds.\<close>

lemmas run_simps = loop_body_eval reencode_eval io_bind_def
        io_return_def print_def flatten_def paste_def Image_new_def lib0_def
        img_rgba_def img_rgb_def Let_def

lemma w0_mid_run:
  "main_loop lib0 (take 2 images_to_optimize) (0, None) w0 = (w0_mid, Inr (2, Some 2))"
  "files w0_mid = (files w0)(''public/covers/fracture-engine.png'' \<mapsto> [0, 0])"
  "stdout w0_mid = [Skipping ''src/assets/covers/fracture-engine.png'',
                 Optimizing ''public/covers/fracture-engine.png'',
                 Original 4, Optimized 2, Saved 2 50, Blank]"
  unfolding w0_mid_def
  by (simp_all add: images_to_optimize_def run_simps w0_def)

lemma w_bad_mid_run:
  "main_loop lib0 (take 1 images_to_optimize) (0, None) w_bad = (w_bad_mid, Inr (2, Some 2))"
  "files w_bad_mid = (files w_bad)(''src/assets/covers/fracture-engine.png'' \<mapsto> [0, 0])"
  unfolding w_bad_mid_def
  by (simp_all add: images_to_optimize_def run_simps w_bad_def)

lemma w_bad_end_run:
  "loop_body lib0 (''public/covers/fracture-engine.png'', ''png'') (2, Some 2) w_bad_mid =
     (w_bad_end, Inl (UnidentifiedImageError ''cannot identify image file''))"
  unfolding w_bad_end_def w_bad_mid_def
  by (simp add: images_to_optimize_def run_simps w_bad_def)

text \<open>Blending, flattening and the image that reaches the encoder.\<close>

lemma div255_id: "x \<le> 255 \<Longrightarrow> div255 (x * 255) = x"
  unfolding div255_def Let_def drop_bit_eq_div by simp

lemma blend8_transparent: "blend8 0 255 c = 255"
  by (simp add: blend8_def div255_def drop_bit_eq_div)

lemma blend8_opaque: "blend8 255 d c = c"
proof -
  have "unat c \<le> 255" using unsigned_less [of c, where ?'a = nat] by simp
  then have "div255 (unat c * 255) = unat c" by (rule div255_id)
  then show ?thesis by (simp add: blend8_def)
qed

lemma flatten_alpha:
  assumes "mode img \<in> {''RGBA'', ''LA'', ''P''}"
  shows "flatten img = Inr \<lparr>mode = ''RGB'', isize = isize img,
           pix = (\<lambda>i. map (blend8 (alpha_of img i) 255) (colour_of img i)),
           palette = default_palette, info = []\<rparr>"
proof -
  have m: "mode (rgba_source img) \<in> {''RGBA'', ''LA''}"
    using assms by (auto simp: rgba_source_def convert_RGBA_def)
  have s: "isize (rgba_source img) = isize img"
    by (simp add: rgba_source_def convert_RGBA_def)
  have px: "map2 (blend8 a) [255, 255, 255] (as_rgb src i) = map (blend8 a 255) (as_rgb src i)" for a src i
    by (simp add: as_rgb_def)
  from assms have "flatten img = paste (Image_new ''RGB'' (isize img) (Some [255, 255, 255]))
      (rgba_source img) (Some (split_last (rgba_source img)))"
    using m by (simp add: flatten_def Let_def rgba_source_def [symmetric])
  also have "\<dots> = Inr \<lparr>mode = ''RGB'', isize = isize img,
           pix = (\<lambda>i. map (blend8 (alpha_of img i) 255) (colour_of img i)),
           palette = default_palette, info = []\<rparr>"
    by (simp add: paste_def s Image_new_def px alpha_of_def colour_of_def)
  finally show ?thesis .
qed

lemma flatten_other: "mode img \<notin> {''RGBA'', ''LA'', ''P''} \<Longrightarrow> flatten img = Inr img"
  by (simp add: flatten_def)


lemma stripped_fields:
  "mode (stripped img) = mode img" "isize (stripped img) = isize img" "info (stripped img) = []"
  "i < fst (isize img) * snd (isize img) \<Longrightarrow> pix (stripped img) i = pix img i"
  by (simp_all add: stripped_def Image_new_def)

lemma reencode_writes:
  assumes "files w p = Some b" and "decode lib b = Inr img0" and "prep img0 = Inr img"
  shows "writes (io_log (fst (reencode lib prep fmt params p w))) =
           writes (io_log w) @ [(p, \<lparr>sformat = fmt, sparams = params, simage = stripped img\<rparr>)]"
  using assms
  by (simp add: reencode_eval writes_def Let_def split: sum.splits prod.splits)

lemma writes_append: "writes (xs @ ys) = writes xs @ writes ys"
  by (simp add: writes_def)

lemma body_tail_log:
  "io_log (fst (case io_bind m (\<lambda>n. io_return (Some n)) w1 of
             (w2, Inl e) \<Rightarrow> (w2, Inl e)
           | (w2, Inr None) \<Rightarrow> (w2, Inl x)
           | (w2, Inr (Some n)) \<Rightarrow> (w2\<lparr>stdout := stdout w2 @ [Blank]\<rparr>, Inr (g n)))) =
   io_log (fst (m w1))"
  by (cases "m w1") (auto simp: io_bind_def io_return_def split: sum.splits)

lemma loop_body_writes:
  assumes "files w p = Some b" and "decode lib b = Inr img0" and "known_format (p, f)"
  shows "writes (io_log (fst (loop_body lib (p, f) vars w))) =
           writes (io_log w) @
             [(p, if f = ''png'' then
                    \<lparr>sformat = ''PNG'', sparams = [(''optimize'', B True), (''compress_level'', I 9)],
                      simage = stripped img0\<rparr>
                  else if f = ''jpg'' then
                    \<lparr>sformat = ''JPEG'',
                      sparams = [(''quality'', I 90), (''optimize'', B True), (''progressive'', B True)],
                      simage = stripped (case flatten img0 of Inr flat \<Rightarrow> flat | Inl e \<Rightarrow> img0)\<rparr>
                  else
                    \<lparr>sformat = ''WEBP'', sparams = [(''quality'', I 90), (''method'', I 6)],
                      simage = stripped img0\<rparr>)]"
proof -
  obtain t ns where vars: "vars = (t, ns)" by (cases vars)
  let ?w1 = "w\<lparr>io_log := io_log w @ [Stat p, Stat p]\<rparr>"
  have f: "files ?w1 p = Some b" using assms(1) by simp
  have l: "writes (io_log w @ [Stat p, Stat p]) = writes (io_log w)" by (simp add: writes_def)
  obtain flat where fl: "flatten img0 = Inr flat"
    by (cases "mode img0 \<in> {''RGBA'', ''LA'', ''P''}") (simp_all add: flatten_alpha flatten_other)
  have plain: "writes (io_log (fst (reencode lib Inr fmt params p ?w1))) =
           writes (io_log w) @ [(p, \<lparr>sformat = fmt, sparams = params, simage = stripped img0\<rparr>)]"
    for fmt params
    using reencode_writes [OF f assms(2), of Inr img0 fmt params] by (simp add: l)
  have flatd: "writes (io_log (fst (reencode lib flatten fmt params p ?w1))) =
           writes (io_log w) @ [(p, \<lparr>sformat = fmt, sparams = params, simage = stripped flat\<rparr>)]"
    for fmt params
    using reencode_writes [OF f assms(2), of flatten flat fmt params] fl by (simp add: l)
  from assms(3) consider "f = ''png''" | "f = ''jpg''" | "f = ''webp''" by (auto simp: known_format_def)
  then show ?thesis
  proof cases
    case 1
    then show ?thesis
      by (simp add: vars loop_body_eval assms(1) body_tail_log plain)
  next
    case 2
    then show ?thesis
      by (simp add: vars loop_body_eval assms(1) body_tail_log flatd fl)
  next
    case 3
    then show ?thesis
      by (simp add: vars loop_body_eval assms(1) body_tail_log plain)
  qed
qed

lemma colour_of_white: "map (blend8 0 255) (colour_of img i) = [255, 255, 255]"
  by (simp add: colour_of_def as_rgb_def blend8_transparent)

lemma colour_of_opaque: "map (blend8 255 255) (colour_of img i) = colour_of img i"
  by (simp add: colour_of_def as_rgb_def blend8_opaque)

lemma upt_0_2: "[0..<2] = [0, Suc 0]"
  by (simp add: numeral_2_eq_2)

lemma img_rgba_facts:
  "mode img_rgba = ''RGBA''" "isize img_rgba = (2, 1)"
  "getdata img_rgba = [[10, 20, 30, 0], [40, 50, 60, 255]]"
  "info img_rgba = [(''exif'', [1, 2, 3])]"
  "alpha_of img_rgba 0 = 0" "alpha_of img_rgba (Suc 0) = 255"
  "colour_of img_rgba (Suc 0) = [40, 50, 60]"
  by (simp_all add: img_rgba_def getdata_def alpha_of_def colour_of_def rgba_source_def
        split_last_def as_rgb_def band_def getbands_def upt_0_2)


lemma w0_files:
  "files w0 ''public/cache-mcclure-og.jpg'' = Some [1, 1, 1, 1, 1, 1]"
  "files w0 ''public/covers/fracture-engine.png'' = Some [2, 2, 2, 2]"
  "decode lib0 [1, 1, 1, 1, 1, 1] = Inr img_rgba"
  "decode lib0 [2, 2, 2, 2] = Inr img_rgb"
  "io_log w0 = []"
  by (simp_all add: w0_def lib0_def)


section \<open>Lemmas about the generator\<close>

text \<open>Drawing changes pixels only.\<close>

lemma rectangle_fields:
  "mode (rectangle xy c img) = mode img" "isize (rectangle xy c img) = isize img"
  "info (rectangle xy c img) = info img"
  by (simp_all add: rectangle_def split: prod.splits)

lemma draw_bitmap_fields:
  "mode (draw_bitmap xy g c img) = mode img" "isize (draw_bitmap xy g c img) = isize img"
  "info (draw_bitmap xy g c img) = info img"
  by (simp_all add: draw_bitmap_def split: prod.splits)

lemma draw_text_fields:
  assumes "draw_text lib xy txt fnt c img = Inr img'"
  shows "mode img' = mode img \<and> isize img' = isize img \<and> info img' = info img"
  using assms by (auto simp: draw_text_def draw_bitmap_fields split: sum.splits)

text \<open>The font loop and the selection, in closed form.\<close>

lemma font_loop_eval:
  "font_loop lib ps fonts w =
     (case first_existing (files w) ps of
        None \<Rightarrow> (w\<lparr>io_log := io_log w @ map Stat ps\<rparr>, Inr fonts)
      | Some (p, b) \<Rightarrow>
          (let w1 = w\<lparr>io_log := io_log w @ map Stat (takeWhile (\<lambda>q. files w q = None) ps)
                                   @ [Stat p, Opened p]\<rparr>
           in case ft_open lib b 80 of
                Some e \<Rightarrow> (w1, Inl e)
              | None \<Rightarrow>
                  (case ft_open lib b 40 of
                     Some e \<Rightarrow> (w1\<lparr>io_log := io_log w1 @ [Opened p]\<rparr>, Inl e)
                   | None \<Rightarrow> (w1\<lparr>io_log := io_log w1 @ [Opened p]\<rparr>,
                               Inr (Some (FreeTypeFont p 80), Some (FreeTypeFont p 40))))))"
proof (induction ps arbitrary: w)
  case Nil
  then show ?case by (simp add: io_return_def)
next
  case (Cons p ps)
  show ?case
  proof (cases "files w p")
    case None
    then show ?thesis
      by (simp add: io_bind_def exists_def log_io_def Cons.IH split: option.splits prod.splits)
  next
    case (Some b)
    then show ?thesis
      by (simp add: io_bind_def exists_def log_io_def truetype_def io_return_def Let_def
            split: option.splits)
  qed
qed

lemma select_fonts_eval:
  "select_fonts lib w =
     (w\<lparr>io_log := io_log w @ font_events lib (files w)\<rparr>, Inr (chosen_fonts lib (files w)))"
  by (auto simp: select_fonts_def font_loop_eval io_bind_def io_return_def chosen_fonts_def Let_def
        font_events_def load_default_def split: option.splits prod.splits)

lemma writes_map_Stat: "writes (map Stat ps) = []"
  by (induction ps) (simp_all add: writes_def)

lemma writes_font_events: "writes (font_events lib fs) = []"
  by (simp add: font_events_def writes_append writes_map_Stat split: option.splits prod.splits)
     (simp add: writes_def)

text \<open>The output path.\<close>

lemma output_path_eq:
  "output_path script_file =
     (if dirname (dirname script_file) = [] \<or> last (dirname (dirname script_file)) = CHR ''/''
      then dirname (dirname script_file) else dirname (dirname script_file) @ ''/'')
       @ ''public/cache-mcclure-og.jpg''"
  by (simp add: output_path_def join_def join2_def)

lemma output_path_examples:
  "output_path ''/repo/scripts/generate-og-image.py'' = ''/repo/public/cache-mcclure-og.jpg''"
  "output_path ''scripts/generate-og-image.py'' = ''public/cache-mcclure-og.jpg''"
  by (simp_all add: output_path_def join_def join2_def dirname_def rstrip_sep_def)

text \<open>The threshold in bytes.\<close>

lemma kb_threshold: "(300 < (of_int (int n) / 1024 :: rat)) = (307200 < n)"
  by (simp add: less_divide_eq)

text \<open>A run of \<^verbatim>\<open>create_og_image()\<close> that returns.\<close>

lemma draw_og_image_fields:
  assumes "draw_og_image lib fonts img0 = Inr img"
  shows "mode img = mode img0" "isize img = isize img0" "info img = info img0"
  using assms
  by (auto simp: draw_og_image_def Let_def rectangle_fields split: sum.splits
        dest!: draw_text_fields)

lemma create_og_image_success:
  assumes "create_og_image lib script_file w = (w', Inr u)"
  shows "\<exists>img b. mode img = ''RGB'' \<and> isize img = (1200, 630) \<and> info img = [] \<and>
     encode lib \<lparr>sformat = ''JPEG'', sparams = [(''quality'', I 90), (''optimize'', B True)],
                 simage = img\<rparr> = Inr b \<and>
     w' = \<lparr>files = (files w)(output_path script_file \<mapsto> b),
           stdout = stdout w @ [Created (output_path script_file), Dimensions 1200 630,
                      File_size (of_int (int (length b)) / 1024),
                      if 307200 < length b then Warning_exceeds else Within_limits],
           io_log = io_log w @ font_events lib (files w) @
                      [Wrote (output_path script_file)
                         \<lparr>sformat = ''JPEG'', sparams = [(''quality'', I 90), (''optimize'', B True)],
                           simage = img\<rparr>,
                       Stat (output_path script_file)]\<rparr>"
proof -
  let ?img0 = "Image_new ''RGB'' (WIDTH, HEIGHT) (Some BACKGROUND_COLOR)"
  from assms obtain img where d: "draw_og_image lib (chosen_fonts lib (files w)) ?img0 = Inr img"
    by (cases "draw_og_image lib (chosen_fonts lib (files w)) ?img0")
       (auto simp: create_og_image_def select_fonts_eval io_bind_def io_lift_def io_raise_def Let_def)
  have f: "mode img = ''RGB''" "isize img = (1200, 630)" "info img = []"
    using draw_og_image_fields [OF d] by (simp_all add: Image_new_def WIDTH_def HEIGHT_def)
  from assms d show ?thesis
    apply (intro exI [of _ img])
    apply (simp add: f)
    apply (auto simp: create_og_image_def select_fonts_eval io_bind_def io_lift_def io_return_def
          Let_def Image_save_def log_io_def print_def getsize_def kb_threshold WIDTH_def HEIGHT_def
          split: sum.splits prod.splits if_splits)
    done
qed

text \<open>The concrete libraries never fail to draw or to encode.\<close>

lemma draw_og_image_lib0:
  "\<exists>img. draw_og_image lib0 fonts img0 = Inr img"
  "\<exists>img. draw_og_image lib_big fonts img0 = Inr img"
  by (simp_all add: draw_og_image_def Let_def lib0_def lib_big_def draw_text_def)

lemma create_og_image_returns:
  assumes "draw_og_image lib (chosen_fonts lib (files w))
             (Image_new ''RGB'' (WIDTH, HEIGHT) (Some BACKGROUND_COLOR)) = Inr img"
    and "encode lib \<lparr>sformat = ''JPEG'', sparams = [(''quality'', I 90), (''optimize'', B True)],
                 simage = img\<rparr> = Inr b"
  shows "snd (create_og_image lib script_file w) = Inr ()"
  using assms
  by (simp add: create_og_image_def select_fonts_eval io_bind_def io_lift_def io_return_def
          Let_def Image_save_def log_io_def print_def getsize_def)

lemma create_og_image_lib0: "snd (create_og_image lib0 script_file w) = Inr ()"
proof -
  obtain img where "draw_og_image lib0 (chosen_fonts lib0 (files w))
             (Image_new ''RGB'' (WIDTH, HEIGHT) (Some BACKGROUND_COLOR)) = Inr img"
    using draw_og_image_lib0(1) by blast
  then show ?thesis by (rule create_og_image_returns) (simp add: lib0_def)
qed

lemma create_og_image_lib_big: "snd (create_og_image lib_big script_file w) = Inr ()"
proof -
  obtain img where "draw_og_image lib_big (chosen_fonts lib_big (files w))
             (Image_new ''RGB'' (WIDTH, HEIGHT) (Some BACKGROUND_COLOR)) = Inr img"
    using draw_og_image_lib0(2) by blast
  then show ?thesis by (rule create_og_image_returns) (simp add: lib_big_def)
qed

lemma run_collapse: "snd r = Inr u \<Longrightarrow> r = (fst r, Inr u)"
  by (simp add: prod_eq_iff)

text \<open>
  The two handlers of the generator script: an \<open>ImportError\<close> raised inside
  \<^verbatim>\<open>create_og_image()\<close> prints the install hint, any other exception
  prints its message; both exit with code 1.
\<close>

lemma generator_handlers:
  "create_og_image lib script_file w = (w', Inl (ImportError m)) \<Longrightarrow>
     generate_og_image_script (Some lib) script_file w =
       (w'\<lparr>stdout := stdout w' @ [Error_not_installed, Install_hint]\<rparr>, Exit 1)"
  "create_og_image lib script_file w = (w', Inl e) \<Longrightarrow> \<forall>m. e \<noteq> ImportError m \<Longrightarrow>
     generate_og_image_script (Some lib) script_file w =
       (w'\<lparr>stdout := stdout w' @ [Error_creating e]\<rparr>, Exit 1)"
  by (cases e; simp add: generate_og_image_script_def io_bind_def print_def)+

section \<open>The claims\<close>

text \<open>
  C1.  When the imaging library is missing, the script stops at its import in
  line 7, before the \<^verbatim>\<open>try\<close> of lines 124 to 133: the interpreter ends
  with a traceback and exit code 1, and nothing, in particular no install
  hint, has been printed.
\<close>

theorem missing_library_no_hint:
  "generate_og_image_script None script_file w =
     (w, Traceback (ImportError ''No module named PIL'')) \<and>
   stdout (fst (generate_og_image_script None script_file w)) = stdout w \<and>
   exit_code (snd (generate_og_image_script None script_file w)) = 1"
  by (simp add: generate_og_image_script_def)

text \<open>
  C2, as the claim states it, fails: the generator's save passes quality 90 and
  optimize, and no progressive parameter, so the file is not progressive.
\<close>

theorem progressive_counterexample:
  "snd (create_og_image lib0 ''/repo/scripts/generate-og-image.py'' w_gen) = Inr () \<and>
   map write_header
     (writes (io_log (fst (create_og_image lib0 ''/repo/scripts/generate-og-image.py'' w_gen)))) =
     [(''/repo/public/cache-mcclure-og.jpg'', ''JPEG'', [(''quality'', I 90), (''optimize'', B True)],
       ''RGB'', (1200, 630))] \<and>
   map_of [(''quality'', I 90), (''optimize'', B True)] ''progressive'' = None \<and>
   map jpeg_progressive
     (map snd (writes (io_log (fst (create_og_image lib0 ''/repo/scripts/generate-og-image.py'' w_gen))))) =
     [False]"
proof -
  have ok: "snd (create_og_image lib0 ''/repo/scripts/generate-og-image.py'' w_gen) = Inr ()"
    by (rule create_og_image_lib0)
  from create_og_image_success [OF run_collapse [OF ok]] obtain img where
    "mode img = ''RGB''" "isize img = (1200, 630)"
    "io_log (fst (create_og_image lib0 ''/repo/scripts/generate-og-image.py'' w_gen)) =
       io_log w_gen @ font_events lib0 (files w_gen) @
                      [Wrote (output_path ''/repo/scripts/generate-og-image.py'')
                         \<lparr>sformat = ''JPEG'', sparams = [(''quality'', I 90), (''optimize'', B True)],
                           simage = img\<rparr>,
                       Stat (output_path ''/repo/scripts/generate-og-image.py'')]"
    by (metis world.select_convs(3))
  then show ?thesis
    using ok
    by (simp add: output_path_examples w_gen_def writes_append writes_font_events)
       (simp add: writes_def write_header_def jpeg_progressive_def kw_true_def)
qed

text \<open>
  C2, amended.  Every run of \<^verbatim>\<open>create_og_image()\<close> that returns has
  made exactly one save: an RGB image of 1200 by 630 pixels, as JPEG with
  quality 90 and optimize (not progressive), whose encoding is the content of
  the file \<^verbatim>\<open>public/cache-mcclure-og.jpg\<close> under the directory two
  levels above the script file.
\<close>

theorem og_image_written:
  assumes "create_og_image lib script_file w = (w', Inr u)"
  shows "\<exists>img b.
     writes (io_log w') = writes (io_log w) @
       [(output_path script_file,
         \<lparr>sformat = ''JPEG'', sparams = [(''quality'', I 90), (''optimize'', B True)], simage = img\<rparr>)] \<and>
     mode img = ''RGB'' \<and> isize img = (1200, 630) \<and>
     \<not> jpeg_progressive
         \<lparr>sformat = ''JPEG'', sparams = [(''quality'', I 90), (''optimize'', B True)], simage = img\<rparr> \<and>
     encode lib \<lparr>sformat = ''JPEG'', sparams = [(''quality'', I 90), (''optimize'', B True)],
                 simage = img\<rparr> = Inr b \<and>
     files w' = (files w)(output_path script_file \<mapsto> b) \<and>
     output_path script_file =
       (if dirname (dirname script_file) = [] \<or> last (dirname (dirname script_file)) = CHR ''/''
        then dirname (dirname script_file) else dirname (dirname script_file) @ ''/'')
         @ ''public/cache-mcclure-og.jpg''"
proof -
  from create_og_image_success [OF assms] obtain img b where
    f: "mode img = ''RGB''" "isize img = (1200, 630)" and
    e: "encode lib \<lparr>sformat = ''JPEG'', sparams = [(''quality'', I 90), (''optimize'', B True)],
                 simage = img\<rparr> = Inr b" and
    fs: "files w' = (files w)(output_path script_file \<mapsto> b)" and
    l: "io_log w' = io_log w @ font_events lib (files w) @
                      [Wrote (output_path script_file)
                         \<lparr>sformat = ''JPEG'', sparams = [(''quality'', I 90), (''optimize'', B True)],
                           simage = img\<rparr>,
                       Stat (output_path script_file)]"
    by auto
  have wr: "writes (io_log w') = writes (io_log w) @
       [(output_path script_file,
         \<lparr>sformat = ''JPEG'', sparams = [(''quality'', I 90), (''optimize'', B True)], simage = img\<rparr>)]"
    unfolding l writes_append writes_font_events by (simp add: writes_def)
  have np: "\<not> jpeg_progressive
         \<lparr>sformat = ''JPEG'', sparams = [(''quality'', I 90), (''optimize'', B True)], simage = img\<rparr>"
    by (simp add: jpeg_progressive_def kw_true_def)
  from wr f np e fs output_path_eq [of script_file] show ?thesis by blast
qed

theorem og_image_written_witness:
  "snd (create_og_image lib0 ''/repo/scripts/generate-og-image.py'' w_gen) = Inr () \<and>
   map write_header
     (writes (io_log (fst (create_og_image lib0 ''/repo/scripts/generate-og-image.py'' w_gen)))) =
     [(''/repo/public/cache-mcclure-og.jpg'', ''JPEG'', [(''quality'', I 90), (''optimize'', B True)],
       ''RGB'', (1200, 630))] \<and>
   files (fst (create_og_image lib0 ''/repo/scripts/generate-og-image.py'' w_gen)) =
     [''/repo/public/cache-mcclure-og.jpg'' \<mapsto> [0, 0]]"
proof -
  have ok: "snd (create_og_image lib0 ''/repo/scripts/generate-og-image.py'' w_gen) = Inr ()"
    by (rule create_og_image_lib0)
  from og_image_written [OF run_collapse [OF ok]] obtain img b where
    "writes (io_log (fst (create_og_image lib0 ''/repo/scripts/generate-og-image.py'' w_gen))) =
       writes (io_log w_gen) @
       [(output_path ''/repo/scripts/generate-og-image.py'',
         \<lparr>sformat = ''JPEG'', sparams = [(''quality'', I 90), (''optimize'', B True)], simage = img\<rparr>)]"
    "mode img = ''RGB''" "isize img = (1200, 630)"
    "encode lib0 \<lparr>sformat = ''JPEG'', sparams = [(''quality'', I 90), (''optimize'', B True)],
                 simage = img\<rparr> = Inr b"
    "files (fst (create_og_image lib0 ''/repo/scripts/generate-og-image.py'' w_gen)) =
       (files w_gen)(output_path ''/repo/scripts/generate-og-image.py'' \<mapsto> b)"
    by blast
  then show ?thesis
    using ok by (simp add: write_header_def output_path_examples w_gen_def writes_def lib0_def)
qed

text \<open>
  C3.  When \<^verbatim>\<open>main\<close> returns, its output is, record by record, the
  skip message of a missing file or the report of a processed one, whose
  savings are the original size minus the new size of that file and whose
  percentage is the savings divided by the original size times 100; the grand
  total is the sum of these savings over the processed files, a skipped file
  adding nothing.
\<close>

theorem optimizer_reported_savings:
  assumes "main lib w = (w', Inr u)"
  shows "stdout w' = stdout w
           @ concat (map (entry_report (files w) (files w')) (map fst images_to_optimize))
           @ [Total_space_saved
                (sum_list (map (entry_savings (files w) (files w')) (map fst images_to_optimize)))
                (of_int (sum_list (map (entry_savings (files w) (files w')) (map fst images_to_optimize))) / 1024),
              All_optimized]"
proof -
  from assms obtain w1 t ns where
    loop: "main_loop lib images_to_optimize (0, None) w = (w1, Inr (t, ns))" and
    w': "w' = w1\<lparr>stdout := stdout w1 @ [Total_space_saved t (of_int t / 1024), All_optimized]\<rparr>"
    by (auto simp: main_def io_bind_def print_def Let_def split: prod.splits sum.splits)
  have f: "files w' = files w1" by (simp add: w')
  from main_loop_success [OF loop worklist_distinct worklist_known]
  have "stdout w1 = stdout w @ concat (map (entry_report (files w) (files w')) (map fst images_to_optimize))"
    and "t = sum_list (map (entry_savings (files w) (files w')) (map fst images_to_optimize))"
    unfolding f by simp_all
  moreover have "stdout w' = stdout w1 @ [Total_space_saved t (of_int t / 1024), All_optimized]"
    by (simp add: w')
  ultimately show ?thesis by simp
qed

theorem optimizer_reported_savings_witness:
  "snd (main lib0 w0) = Inr () \<and>
   stdout (fst (main lib0 w0)) =
     [Skipping ''src/assets/covers/fracture-engine.png'',
      Optimizing ''public/covers/fracture-engine.png'',
      Original 4, Optimized 2, Saved 2 50, Blank,
      Skipping ''src/assets/covers/fracture-engine.webp'',
      Skipping ''public/covers/fracture-engine.webp'',
      Optimizing ''public/cache-mcclure-og.jpg'',
      Original 6, Optimized 3, Saved 3 50, Blank,
      Total_space_saved 5 (5 / 1024), All_optimized]"
proof -
  have ok: "snd (main lib0 w0) = Inr ()"
    by (subst main_w0) simp
  then have run: "main lib0 w0 = (fst (main lib0 w0), Inr ())"
    by (simp add: prod_eq_iff)
  have after: "files (fst (main lib0 w0)) =
      [''public/covers/fracture-engine.png'' \<mapsto> [0, 0],
       ''public/cache-mcclure-og.jpg'' \<mapsto> [0, 0, 0]]"
    by (subst main_w0) simp
  have before: "files w0 =
      [''public/covers/fracture-engine.png'' \<mapsto> [2, 2, 2, 2],
       ''public/cache-mcclure-og.jpg'' \<mapsto> [1, 1, 1, 1, 1, 1]]" "stdout w0 = []"
    by (simp_all add: w0_def)
  from optimizer_reported_savings [OF run] show ?thesis
    unfolding after before
    by (simp add: ok images_to_optimize_def entry_report_def entry_savings_def size_of_def)
qed

text \<open>
  C4.  When the optimizer processes a record of format jpg whose image has
  mode RGBA, LA or P, the image it saves is an RGB image of the same size in
  which every pixel is the source colour blended onto white through the
  source's own alpha value (a palette image being converted to RGBA first): a
  pixel of alpha 0 is white, a pixel of alpha 255 keeps its colour.  It is
  saved as JPEG with quality 90, optimize and progressive.
\<close>

theorem jpg_flattens_onto_white:
  assumes "files w p = Some b" and "decode lib b = Inr img"
    and "mode img \<in> {''RGBA'', ''LA'', ''P''}"
  shows "\<exists>req. writes (io_log (fst (loop_body lib (p, ''jpg'') vars w))) = writes (io_log w) @ [(p, req)] \<and>
           sformat req = ''JPEG'' \<and>
           sparams req = [(''quality'', I 90), (''optimize'', B True), (''progressive'', B True)] \<and>
           mode (simage req) = ''RGB'' \<and> isize (simage req) = isize img \<and>
           (\<forall>i < fst (isize img) * snd (isize img).
              pix (simage req) i = map (blend8 (alpha_of img i) 255) (colour_of img i) \<and>
              (alpha_of img i = 0 \<longrightarrow> pix (simage req) i = [255, 255, 255]) \<and>
              (alpha_of img i = 255 \<longrightarrow> pix (simage req) i = colour_of img i))"
proof -
  let ?flat = "\<lparr>mode = ''RGB'', isize = isize img,
           pix = (\<lambda>i. map (blend8 (alpha_of img i) 255) (colour_of img i)),
           palette = default_palette, info = []\<rparr>"
  let ?req = "\<lparr>sformat = ''JPEG'',
           sparams = [(''quality'', I 90), (''optimize'', B True), (''progressive'', B True)],
           simage = stripped ?flat\<rparr>"
  have k: "known_format (p, ''jpg'')" by (simp add: known_format_def)
  have w: "writes (io_log (fst (loop_body lib (p, ''jpg'') vars w))) = writes (io_log w) @ [(p, ?req)]"
    using loop_body_writes [OF assms(1,2) k, of vars] by (simp add: flatten_alpha [OF assms(3)])
  have px: "pix (simage ?req) i = map (blend8 (alpha_of img i) 255) (colour_of img i)"
    if "i < fst (isize img) * snd (isize img)" for i
    using that by (simp add: stripped_fields)
  have "\<forall>i < fst (isize img) * snd (isize img).
              pix (simage ?req) i = map (blend8 (alpha_of img i) 255) (colour_of img i) \<and>
              (alpha_of img i = 0 \<longrightarrow> pix (simage ?req) i = [255, 255, 255]) \<and>
              (alpha_of img i = 255 \<longrightarrow> pix (simage ?req) i = colour_of img i)"
    using px by (simp add: colour_of_white colour_of_opaque)
  moreover have "mode (simage ?req) = ''RGB''" "isize (simage ?req) = isize img"
    by (simp_all add: stripped_fields)
  ultimately show ?thesis using w
    by (intro exI [of _ ?req]) (simp add: colour_of_white colour_of_opaque)
qed

theorem jpg_flattens_onto_white_witness:
  "files w0 ''public/cache-mcclure-og.jpg'' = Some [1, 1, 1, 1, 1, 1] \<and>
   decode lib0 [1, 1, 1, 1, 1, 1] = Inr img_rgba \<and>
   mode img_rgba = ''RGBA'' \<and>
   getdata img_rgba = [[10, 20, 30, 0], [40, 50, 60, 255]] \<and>
   map write_summary
     (writes (io_log (fst (loop_body lib0 (''public/cache-mcclure-og.jpg'', ''jpg'') (0, None) w0)))) =
     [(''public/cache-mcclure-og.jpg'', ''JPEG'',
       [(''quality'', I 90), (''optimize'', B True), (''progressive'', B True)],
       ''RGB'', (2, 1), [[255, 255, 255], [40, 50, 60]])]"
proof -
  have m: "mode img_rgba \<in> {''RGBA'', ''LA'', ''P''}" by (simp add: img_rgba_facts)
  from jpg_flattens_onto_white [OF w0_files(1) w0_files(3) m, of "(0, None)"]
  obtain req where
    r: "writes (io_log (fst (loop_body lib0 (''public/cache-mcclure-og.jpg'', ''jpg'') (0, None) w0))) =
          [(''public/cache-mcclure-og.jpg'', req)]"
       "sformat req = ''JPEG''"
       "sparams req = [(''quality'', I 90), (''optimize'', B True), (''progressive'', B True)]"
       "mode (simage req) = ''RGB''" "isize (simage req) = (2, 1)" and
    px: "\<forall>i < 2. (alpha_of img_rgba i = 0 \<longrightarrow> pix (simage req) i = [255, 255, 255]) \<and>
              (alpha_of img_rgba i = 255 \<longrightarrow> pix (simage req) i = colour_of img_rgba i)"
    by (auto simp: w0_files img_rgba_facts colour_of_white colour_of_opaque writes_def)
  from px have "pix (simage req) 0 = [255, 255, 255]" "pix (simage req) (Suc 0) = [40, 50, 60]"
    by (simp_all add: img_rgba_facts)
  then have "getdata (simage req) = [[255, 255, 255], [40, 50, 60]]"
    by (simp add: getdata_def r(5) upt_0_2)
  with r show ?thesis
    by (simp add: write_summary_def w0_files img_rgba_facts)
qed

text \<open>
  C5.  A record of the worklist whose file does not exist: once the records
  before it have been processed, the loop prints the skip message for it,
  leaves the files and the accumulated locals as they are, and goes on with
  all the records after it.  In the whole run of \<^verbatim>\<open>main\<close>, however
  it ends, that path is never opened or written and still names no file.
\<close>

theorem missing_file_skipped:
  assumes "images_to_optimize = pre @ (p, f) # post" and "files w p = None"
  shows "(\<forall>w1 vars1. main_loop lib pre (0, None) w = (w1, Inr vars1) \<longrightarrow>
            loop_body lib (p, f) vars1 w1 =
              (w1\<lparr>stdout := stdout w1 @ [Skipping p], io_log := io_log w1 @ [Stat p]\<rparr>, Inr vars1) \<and>
            main_loop lib images_to_optimize (0, None) w =
              main_loop lib post vars1
                (w1\<lparr>stdout := stdout w1 @ [Skipping p], io_log := io_log w1 @ [Stat p]\<rparr>)) \<and>
         files (fst (main lib w)) p = None \<and>
         (\<exists>evs. io_log (fst (main lib w)) = io_log w @ evs \<and> p \<notin> set (concat (map accessed evs)))"
proof (intro conjI allI impI)
  fix w1 vars1
  assume pre: "main_loop lib pre (0, None) w = (w1, Inr vars1)"
  from main_loop_extends [OF pre] assms(2) have missing: "files w1 p = None"
    by (simp add: extends_def)
  then show body: "loop_body lib (p, f) vars1 w1 =
      (w1\<lparr>stdout := stdout w1 @ [Skipping p], io_log := io_log w1 @ [Stat p]\<rparr>, Inr vars1)"
    by (rule loop_body_missing)
  show "main_loop lib images_to_optimize (0, None) w =
      main_loop lib post vars1 (w1\<lparr>stdout := stdout w1 @ [Skipping p], io_log := io_log w1 @ [Stat p]\<rparr>)"
    by (simp only: assms(1) main_loop_append pre main_loop_Cons body prod.case sum.case)
next
  from main_after_loop obtain w' r where
    loop: "main_loop lib images_to_optimize (0, None) w = (w', r)" and
    same: "files (fst (main lib w)) = files w'" "io_log (fst (main lib w)) = io_log w'"
    by blast
  from main_loop_extends [OF loop] obtain evs where
    e: "\<forall>q. (files w' q = None) = (files w q = None)" "io_log w' = io_log w @ evs"
       "set (concat (map accessed evs)) \<subseteq> dom (files w)"
    unfolding extends_def by blast
  from e(1) assms(2) show "files (fst (main lib w)) p = None" by (simp add: same)
  from assms(2) e(3) have "p \<notin> set (concat (map accessed evs))" by (auto simp: dom_def)
  with e(2) show "\<exists>evs. io_log (fst (main lib w)) = io_log w @ evs \<and> p \<notin> set (concat (map accessed evs))"
    unfolding same by blast
qed

theorem missing_file_skipped_witness:
  "files w0 ''src/assets/covers/fracture-engine.webp'' = None \<and>
   main_loop lib0 (take 2 images_to_optimize) (0, None) w0 = (w0_mid, Inr (2, Some 2)) \<and>
   loop_body lib0 (''src/assets/covers/fracture-engine.webp'', ''webp'') (2, Some 2) w0_mid =
     (w0_mid\<lparr>stdout := stdout w0_mid @ [Skipping ''src/assets/covers/fracture-engine.webp''],
             io_log := io_log w0_mid @ [Stat ''src/assets/covers/fracture-engine.webp'']\<rparr>,
      Inr (2, Some 2)) \<and>
   main_loop lib0 images_to_optimize (0, None) w0 =
     main_loop lib0 (drop 3 images_to_optimize) (2, Some 2)
       (w0_mid\<lparr>stdout := stdout w0_mid @ [Skipping ''src/assets/covers/fracture-engine.webp''],
               io_log := io_log w0_mid @ [Stat ''src/assets/covers/fracture-engine.webp'']\<rparr>) \<and>
   files (fst (main lib0 w0)) ''src/assets/covers/fracture-engine.webp'' = None"
proof -
  have split: "images_to_optimize = take 2 images_to_optimize
      @ (''src/assets/covers/fracture-engine.webp'', ''webp'') # drop 3 images_to_optimize"
    by (simp add: images_to_optimize_def)
  have missing: "files w0 ''src/assets/covers/fracture-engine.webp'' = None"
    by (simp add: w0_def)
  from missing_file_skipped [OF split missing, of lib0] w0_mid_run(1) missing
  show ?thesis by blast
qed




text \<open>
  C7.  Every run of \<^verbatim>\<open>create_og_image()\<close> that returns has, after its
  one save, printed the output path, the dimensions 1200x630 and the size of
  the written file in KB, and then the warning if that size is greater than
  300 (that is, the file has more than 307200 bytes) and the within-limits
  line otherwise.  The file holds what the encoder wrote, and the script ends
  with exit code 0 in both cases.
\<close>

theorem og_report_and_warning:
  assumes "create_og_image lib script_file w = (w', Inr u)"
  shows "\<exists>req b.
     writes (io_log w') = writes (io_log w) @ [(output_path script_file, req)] \<and>
     encode lib req = Inr b \<and>
     files w' = (files w)(output_path script_file \<mapsto> b) \<and>
     stdout w' = stdout w @
       [Created (output_path script_file), Dimensions 1200 630,
        File_size (of_int (int (length b)) / 1024),
        if 300 < (of_int (int (length b)) / 1024 :: rat) then Warning_exceeds else Within_limits] \<and>
     (300 < (of_int (int (length b)) / 1024 :: rat)) = (307200 < length b) \<and>
     generate_og_image_script (Some lib) script_file w = (w', Exit 0)"
proof -
  from create_og_image_success [OF assms] obtain img b where
    e: "encode lib \<lparr>sformat = ''JPEG'', sparams = [(''quality'', I 90), (''optimize'', B True)],
                 simage = img\<rparr> = Inr b" and
    w': "w' = \<lparr>files = (files w)(output_path script_file \<mapsto> b),
           stdout = stdout w @ [Created (output_path script_file), Dimensions 1200 630,
                      File_size (of_int (int (length b)) / 1024),
                      if 307200 < length b then Warning_exceeds else Within_limits],
           io_log = io_log w @ font_events lib (files w) @
                      [Wrote (output_path script_file)
                         \<lparr>sformat = ''JPEG'', sparams = [(''quality'', I 90), (''optimize'', B True)],
                           simage = img\<rparr>,
                       Stat (output_path script_file)]\<rparr>"
    by blast
  have wr: "writes (io_log w') = writes (io_log w) @
       [(output_path script_file,
         \<lparr>sformat = ''JPEG'', sparams = [(''quality'', I 90), (''optimize'', B True)], simage = img\<rparr>)]"
    unfolding w' by (simp add: writes_append writes_font_events) (simp add: writes_def)
  have fs: "files w' = (files w)(output_path script_file \<mapsto> b)" by (simp add: w')
  have out: "stdout w' = stdout w @
       [Created (output_path script_file), Dimensions 1200 630,
        File_size (of_int (int (length b)) / 1024),
        if 300 < (of_int (int (length b)) / 1024 :: rat) then Warning_exceeds else Within_limits]"
    unfolding kb_threshold by (simp add: w')
  have ex: "generate_og_image_script (Some lib) script_file w = (w', Exit 0)"
    by (simp add: generate_og_image_script_def assms)
  from wr e fs out kb_threshold [of "length b"] ex show ?thesis by blast
qed

theorem og_report_and_warning_witness:
  "snd (create_og_image lib_big ''/repo/scripts/generate-og-image.py'' w_gen) = Inr () \<and>
   stdout (fst (create_og_image lib_big ''/repo/scripts/generate-og-image.py'' w_gen)) =
     [Created ''/repo/public/cache-mcclure-og.jpg'', Dimensions 1200 630,
      File_size (307201 / 1024), Warning_exceeds] \<and>
   files (fst (create_og_image lib_big ''/repo/scripts/generate-og-image.py'' w_gen)) =
     [''/repo/public/cache-mcclure-og.jpg'' \<mapsto> replicate 307201 0] \<and>
   snd (generate_og_image_script (Some lib_big) ''/repo/scripts/generate-og-image.py'' w_gen) = Exit 0"
proof -
  have ok: "snd (create_og_image lib_big ''/repo/scripts/generate-og-image.py'' w_gen) = Inr ()"
    by (rule create_og_image_lib_big)
  from og_report_and_warning [OF run_collapse [OF ok]] obtain req b where
    "encode lib_big req = Inr b"
    "files (fst (create_og_image lib_big ''/repo/scripts/generate-og-image.py'' w_gen)) =
       (files w_gen)(output_path ''/repo/scripts/generate-og-image.py'' \<mapsto> b)"
    "stdout (fst (create_og_image lib_big ''/repo/scripts/generate-og-image.py'' w_gen)) = stdout w_gen @
       [Created (output_path ''/repo/scripts/generate-og-image.py''), Dimensions 1200 630,
        File_size (of_int (int (length b)) / 1024),
        if 300 < (of_int (int (length b)) / 1024 :: rat) then Warning_exceeds else Within_limits]"
    "generate_og_image_script (Some lib_big) ''/repo/scripts/generate-og-image.py'' w_gen =
       (fst (create_og_image lib_big ''/repo/scripts/generate-og-image.py'' w_gen), Exit 0)"
    by blast
  then show ?thesis
    using ok by (auto simp: lib_big_def output_path_examples w_gen_def)
qed

text \<open>
  C8.  Font selection never raises and changes nothing but the log of file
  accesses.  It yields, for the first of the three paths in their order that
  names a file, that file loaded at size 80 (title) and at size 40
  (subtitle) when both loads succeed; and the default font for both when no
  path names a file or a load raises.
\<close>

theorem font_selection:
  "select_fonts lib w =
     (w\<lparr>io_log := io_log w @ font_events lib (files w)\<rparr>,
      Inr (case first_existing (files w) font_paths of
             None \<Rightarrow> (Some load_default, Some load_default)
           | Some (p, b) \<Rightarrow>
               if ft_open lib b 80 = None \<and> ft_open lib b 40 = None
               then (Some (FreeTypeFont p 80), Some (FreeTypeFont p 40))
               else (Some load_default, Some load_default)))"
  by (simp add: select_fonts_eval chosen_fonts_def)

theorem font_selection_witness:
  "snd (select_fonts lib0 w_font) =
     Inr (Some (FreeTypeFont ''/usr/share/fonts/truetype/dejavu/DejaVuSans-Bold.ttf'' 80),
          Some (FreeTypeFont ''/usr/share/fonts/truetype/dejavu/DejaVuSans-Bold.ttf'' 40)) \<and>
   snd (select_fonts lib0 w_gen) = Inr (Some DefaultFont, Some DefaultFont)"
  by (simp add: font_selection w_font_def w_gen_def font_paths_def lib0_def load_default_def)

text \<open>
  C9.  When the loop body raises on a record, after the records before it were
  processed, \<^verbatim>\<open>main\<close> ends with that exception in the world of the
  raise and the script ends with its traceback: the output holds no grand
  total, no file access of any later record has happened and their files are
  untouched, and the files of the earlier records are as their processing
  left them.
\<close>

theorem error_halts_batch:
  assumes "images_to_optimize = pre @ (p, f) # post"
    and "main_loop lib pre (0, None) w = (w1, Inr vars1)"
    and "loop_body lib (p, f) vars1 w1 = (w2, Inl e)"
  shows "main lib w = (w2, Inl e) \<and>
         optimize_images_script (Some lib) w = (w2, Traceback e) \<and>
         (\<exists>ls. stdout w2 = stdout w @ ls \<and> \<not> list_ex is_total ls) \<and>
         (\<exists>evs. io_log w2 = io_log w @ evs \<and> (\<forall>q \<in> fst ` set post. q \<notin> set (map io_path evs))) \<and>
         (\<forall>q \<in> fst ` set post. files w2 q = files w q) \<and>
         (\<forall>q \<in> fst ` set pre. files w2 q = files w1 q)"
proof -
  have loop: "main_loop lib images_to_optimize (0, None) w = (w2, Inl e)"
    by (simp only: assms(1) main_loop_append assms(2) main_loop_Cons assms(3) prod.case sum.case)
  then have m: "main lib w = (w2, Inl e)" by (rule main_raises)
  then have s: "optimize_images_script (Some lib) w = (w2, Traceback e)"
    by (simp add: optimize_images_script_def)
  from worklist_distinct have d: "distinct (map fst pre @ p # map fst post)"
    unfolding assms(1) by simp
  then have d1: "p \<notin> fst ` set pre" and d2: "\<forall>q \<in> fst ` set post. q \<noteq> p \<and> q \<notin> fst ` set pre"
    by auto
  have "extends (fst ` set pre \<union> {p}) w w2"
    using main_loop_extends [OF assms(2)] loop_body_extends [OF assms(3)] by (rule extends_trans)
  then obtain evs ls where
    x: "\<forall>q. q \<notin> fst ` set pre \<union> {p} \<longrightarrow> files w2 q = files w q"
       "io_log w2 = io_log w @ evs" "set (map io_path evs) \<subseteq> fst ` set pre \<union> {p}"
       "stdout w2 = stdout w @ ls" "\<not> list_ex is_total ls"
    unfolding extends_def by blast
  have 3: "\<exists>ls. stdout w2 = stdout w @ ls \<and> \<not> list_ex is_total ls" using x(4,5) by blast
  have "\<forall>q \<in> fst ` set post. q \<notin> set (map io_path evs)" using x(3) d2 by blast
  with x(2) have 4: "\<exists>evs. io_log w2 = io_log w @ evs \<and> (\<forall>q \<in> fst ` set post. q \<notin> set (map io_path evs))"
    by blast
  have 5: "\<forall>q \<in> fst ` set post. files w2 q = files w q" using x(1) d2 by blast
  from loop_body_extends [OF assms(3)] have "\<forall>q. q \<noteq> p \<longrightarrow> files w2 q = files w1 q"
    by (simp add: extends_def)
  with d1 have 6: "\<forall>q \<in> fst ` set pre. files w2 q = files w1 q" by auto
  from m s 3 4 5 6 show ?thesis by (intro conjI)
qed

theorem error_halts_batch_witness:
  "main_loop lib0 (take 1 images_to_optimize) (0, None) w_bad = (w_bad_mid, Inr (2, Some 2)) \<and>
   loop_body lib0 (''public/covers/fracture-engine.png'', ''png'') (2, Some 2) w_bad_mid =
     (w_bad_end, Inl (UnidentifiedImageError ''cannot identify image file'')) \<and>
   main lib0 w_bad = (w_bad_end, Inl (UnidentifiedImageError ''cannot identify image file'')) \<and>
   optimize_images_script (Some lib0) w_bad =
     (w_bad_end, Traceback (UnidentifiedImageError ''cannot identify image file'')) \<and>
   files w_bad_end ''public/cache-mcclure-og.jpg'' = Some [1, 1, 1, 1, 1, 1] \<and>
   files w_bad_end ''src/assets/covers/fracture-engine.png'' = Some [0, 0]"
proof -
  have split: "images_to_optimize = take 1 images_to_optimize
      @ (''public/covers/fracture-engine.png'', ''png'') # drop 2 images_to_optimize"
    by (simp add: images_to_optimize_def)
  note facts = error_halts_batch [OF split w_bad_mid_run(1) w_bad_end_run]
  have a: "''public/cache-mcclure-og.jpg'' \<in> fst ` set (drop 2 images_to_optimize)"
    and b: "''src/assets/covers/fracture-engine.png'' \<in> fst ` set (take 1 images_to_optimize)"
    by (simp_all add: images_to_optimize_def)
  from facts a have "files w_bad_end ''public/cache-mcclure-og.jpg'' = files w_bad ''public/cache-mcclure-og.jpg''"
    by blast
  moreover from facts b have "files w_bad_end ''src/assets/covers/fracture-engine.png'' = files w_bad_mid ''src/assets/covers/fracture-engine.png''"
    by blast
  ultimately show ?thesis
    using facts w_bad_mid_run w_bad_end_run by (simp add: w_bad_def)
qed

text \<open>
  C10.  The quality parameter of \<^verbatim>\<open>optimize_png\<close> has no effect: for
  every input path, output path and world, any two quality values give the
  same files, the same output and the same return value.
\<close>

theorem png_quality_ignored:
  "optimize_png lib input_path out_path q1 = optimize_png lib input_path out_path q2"
  by (simp add: optimize_png_def)

end
